theory Spec2Isabelle
  imports Main "HOL-Library.Word"
begin

unbundle bit_operations_syntax

section \<open>The C library calls that minivtun.c makes on strings\<close>

text \<open>
  A C string is modelled as the list of its characters before the terminating NUL.
  The functions below follow the C standard (and, for \<open>inet_pton\<close>, the parser of the
  GNU C library); they are the environment of the program, not part of it.
\<close>

definition is_space :: "char \<Rightarrow> bool" where
  "is_space c = (c \<in> set [CHR '' '', CHR 0x09, CHR 0x0A, CHR 0x0B, CHR 0x0C, CHR 0x0D])"

definition is_digit :: "char \<Rightarrow> bool" where
  "is_digit c = (c \<in> set ''0123456789'')"

definition digit_val :: "char \<Rightarrow> nat" where
  "digit_val c = of_char c - 48"

definition decimal_val :: "string \<Rightarrow> int" where
  "decimal_val ds = foldl (\<lambda>a c. a * 10 + int (digit_val c)) 0 ds"

text \<open>
  \<open>strchr(s, c)\<close>: the offset of the first \<open>c\<close> in \<open>s\<close>, or \<open>None\<close> for the NULL
  pointer.
\<close>

definition strchr :: "string \<Rightarrow> char \<Rightarrow> nat option" where
  "strchr s c = (if c \<in> set s then Some (length (takeWhile (\<lambda>x. x \<noteq> c) s)) else None)"

text \<open>
  The subject sequence of \<open>strtol\<close>/\<open>strtoul\<close> in base 10, which is also what the
  \<open>%d\<close> and \<open>%u\<close> conversions of \<open>sscanf\<close> match: white space is skipped, then an
  optional sign, then at least one digit; whatever follows the digits is ignored.
  The result is the sign and the magnitude as a mathematical number (never negative),
  \<open>None\<close> when no digit is found.
\<close>

definition scan_decimal :: "string \<Rightarrow> (bool \<times> int) option" where
  "scan_decimal s =
     (let s1 = dropWhile is_space s;
          neg = (s1 \<noteq> [] \<and> hd s1 = CHR ''-'');
          s2 = (if s1 \<noteq> [] \<and> (hd s1 = CHR ''-'' \<or> hd s1 = CHR ''+'') then tl s1 else s1);
          ds = takeWhile is_digit s2
      in if ds = [] then None else Some (neg, decimal_val ds))"

text \<open>
  \<open>sscanf(s, "%d", &i)\<close> and \<open>sscanf(s, "%u", &u)\<close>: the matched number as an integer.
  The call returns 1 exactly when the result is \<open>Some\<close> (0 or \<open>EOF\<close> otherwise). Whether
  the number fits the object it is stored in is checked where the call is modelled: the
  C standard leaves a conversion whose result cannot be represented undefined.
\<close>

definition sscanf_int :: "string \<Rightarrow> int option" where
  "sscanf_int s =
     (case scan_decimal s of
        None \<Rightarrow> None
      | Some (neg, v) \<Rightarrow> Some (if neg then - v else v))"

text \<open>
  \<open>(unsigned)strtoul(s, NULL, 10)\<close> with a 64-bit \<open>unsigned long\<close>: 0 when there is
  no number, \<open>ULONG_MAX\<close> when it is too large, negated in \<open>unsigned long\<close> after a
  minus sign; the cast keeps the low 32 bits.
\<close>

definition strtoul :: "string \<Rightarrow> 64 word" where
  "strtoul s =
     (case scan_decimal s of
        None \<Rightarrow> 0
      | Some (neg, v) \<Rightarrow>
          if v \<ge> 2 ^ 64 then - 1
          else if neg then - word_of_int v else word_of_int v)"

definition strtoul_unsigned :: "string \<Rightarrow> 32 word" where
  "strtoul_unsigned s = ucast (strtoul s)"

text \<open>
  \<open>inet_pton(AF_INET, s, &a)\<close>: four decimal octets separated by dots, each at most
  255 and without a leading zero. The address is the 32-bit number whose most
  significant octet is the first one written. The call returns 1 exactly when the
  result is \<open>Some\<close>, and 0 otherwise.
\<close>

fun inet_pton4_loop :: "string \<Rightarrow> bool \<Rightarrow> nat \<Rightarrow> nat \<Rightarrow> nat list \<Rightarrow> nat list option" where
  "inet_pton4_loop [] saw_digit octets cur done = (if octets < 4 then None else Some (done @ [cur]))"
| "inet_pton4_loop (ch # src) saw_digit octets cur done =
     (if is_digit ch then
        (let new = cur * 10 + digit_val ch in
         if saw_digit \<and> cur = 0 then None
         else if new > 255 then None
         else if \<not> saw_digit then
           (if octets + 1 > 4 then None else inet_pton4_loop src True (octets + 1) new done)
         else inet_pton4_loop src True octets new done)
      else if ch = CHR ''.'' \<and> saw_digit then
        (if octets = 4 then None else inet_pton4_loop src False octets 0 (done @ [cur]))
      else None)"

definition octets_val :: "nat list \<Rightarrow> 'a::len word" where
  "octets_val bs = foldl (\<lambda>a b. a * 256 + of_nat b) 0 bs"

definition inet_pton4 :: "string \<Rightarrow> 32 word option" where
  "inet_pton4 s = map_option octets_val (inet_pton4_loop s False 0 0 [])"

text \<open>
  \<open>inet_pton(AF_INET6, s, &a)\<close>: up to eight groups of one to four hexadecimal
  digits separated by colons, at most one \<open>::\<close> standing for a run of zero groups, and
  optionally a dotted IPv4 address in place of the last two groups.
\<close>

definition hex_digit_value :: "char \<Rightarrow> nat option" where
  "hex_digit_value c =
     (let n = (of_char c :: nat) in
      if 48 \<le> n \<and> n \<le> 57 then Some (n - 48)
      else if 97 \<le> n \<and> n \<le> 102 then Some (n - 87)
      else if 65 \<le> n \<and> n \<le> 70 then Some (n - 55)
      else None)"

fun inet_pton6_loop ::
  "string \<Rightarrow> string \<Rightarrow> nat \<Rightarrow> nat \<Rightarrow> nat list \<Rightarrow> nat option
     \<Rightarrow> (nat list \<times> nat option \<times> nat \<times> nat) option" where
  "inet_pton6_loop [] curtok xdigits_seen val tp colonp = Some (tp, colonp, xdigits_seen, val)"
| "inet_pton6_loop (ch # src) curtok xdigits_seen val tp colonp =
     (case hex_digit_value ch of
        Some digit \<Rightarrow>
          if xdigits_seen = 4 then None
          else if val * 16 + digit > 65535 then None
          else inet_pton6_loop src curtok (xdigits_seen + 1) (val * 16 + digit) tp colonp
      | None \<Rightarrow>
          if ch = CHR '':'' then
            (if xdigits_seen = 0 then
               (if colonp \<noteq> None then None
                else inet_pton6_loop src src 0 val tp (Some (length tp)))
             else if src = [] then None
             else if length tp + 2 > 16 then None
             else inet_pton6_loop src src 0 0 (tp @ [val div 256, val mod 256]) colonp)
          else if ch = CHR ''.'' \<and> length tp + 4 \<le> 16 then
            (case inet_pton4_loop curtok False 0 0 [] of
               None \<Rightarrow> None
             | Some bs \<Rightarrow> Some (tp @ bs, colonp, 0, val))
          else None)"

definition inet_pton6 :: "string \<Rightarrow> 128 word option" where
  "inet_pton6 s =
     (if s = [] then None
      else if hd s = CHR '':'' \<and> (tl s = [] \<or> hd (tl s) \<noteq> CHR '':'') then None
      else
        (let src = (if hd s = CHR '':'' then tl s else s) in
         case inet_pton6_loop src src 0 0 [] None of
           None \<Rightarrow> None
         | Some (tp0, colonp, xdigits_seen, val) \<Rightarrow>
             if xdigits_seen > 0 \<and> length tp0 + 2 > 16 then None
             else
               (let tp = (if xdigits_seen > 0 then tp0 @ [val div 256, val mod 256] else tp0) in
                case colonp of
                  Some cp \<Rightarrow>
                    if length tp = 16 then None
                    else Some (octets_val
                           (take cp tp @ replicate (16 - length tp) 0 @ drop cp tp))
                | None \<Rightarrow>
                    if length tp \<noteq> 16 then None else Some (octets_val tp))))"

text \<open>The \<open>%u\<close> and \<open>%d\<close> conversions of \<open>sprintf\<close>.\<close>

fun dec_nat :: "nat \<Rightarrow> string" where
  "dec_nat n =
     (if n < 10 then [''0123456789'' ! n] else dec_nat (n div 10) @ [''0123456789'' ! (n mod 10)])"

declare dec_nat.simps [simp del]

definition dec_int :: "int \<Rightarrow> string" where
  "dec_int i = (if i < 0 then CHR ''-'' # dec_nat (nat (- i)) else dec_nat (nat i))"

section \<open>The process: its variables, what it does, how it ends\<close>

text \<open>
  What \<open>main\<close> does to the world, in order: the text it prints, and its calls into the
  parts of the program that are outside minivtun.c (the route table, the key derivation,
  the two role controllers) and into \<open>system\<close>.
\<close>

datatype event =
    Printf string
  | Fprintf_stderr string
  | Vt_route_add "32 word" "32 word" "32 word"
  | System string
  | Gen_encrypt_key string
  | Gen_decrypt_key string
  | Gen_string_md5sum string
  | Run_server int string
  | Run_client int string

text \<open>
  How the process ends: \<open>exit(n)\<close>, \<open>return n\<close> from \<open>main\<close>, or a step the C standard
  gives no meaning to (a write past the end of a buffer, a \<open>sscanf\<close> result that does not
  fit its object), after which nothing is known about the run.
\<close>

datatype halt = Exit int | Return int | Undefined_behaviour

text \<open>
  The globals of minivtun.c, the locals of \<open>main\<close> that outlive the option loop, the
  events so far, and whether the process has ended. A \<open>const char *\<close> that may be NULL is
  a \<open>string option\<close>.
\<close>

record state =
  g_keepalive_timeo :: "32 word"
  g_reconnect_timeo :: "32 word"
  g_pid_file :: "string option"
  g_crypto_passwd :: "string option"
  g_local_tun_in :: "32 word"
  g_local_tun_in6 :: "128 word"
  g_devname :: string
  g_tun_mtu :: "32 word"
  g_in_background :: bool
  tun_ip_config :: "string option"
  tun_ip6_config :: "string option"
  loc_addr_pair :: "string option"
  peer_addr_pair :: "string option"
  tunfd :: int
  trace :: "event list"
  halted :: "halt option"

text \<open>
  The initialisers of the globals and of the locals of \<open>main\<close>; \<open>tunfd\<close> has none and
  is assigned before it is read.
\<close>

definition initial_state :: state where
  "initial_state =
     \<lparr> g_keepalive_timeo = 13,
       g_reconnect_timeo = 60,
       g_pid_file = None,
       g_crypto_passwd = Some [],
       g_local_tun_in = 0,
       g_local_tun_in6 = 0,
       g_devname = [],
       g_tun_mtu = 1416,
       g_in_background = False,
       tun_ip_config = None,
       tun_ip6_config = None,
       loc_addr_pair = None,
       peer_addr_pair = None,
       tunfd = 0,
       trace = [],
       halted = None \<rparr>"

definition emit :: "event \<Rightarrow> state \<Rightarrow> state" where
  "emit e s = s\<lparr>trace := trace s @ [e]\<rparr>"

definition exit_with :: "int \<Rightarrow> state \<Rightarrow> state" where
  "exit_with n s = s\<lparr>halted := Some (Exit n)\<rparr>"

definition undefined_behaviour :: "state \<Rightarrow> state" where
  "undefined_behaviour s = s\<lparr>halted := Some Undefined_behaviour\<rparr>"

text \<open>\<open>fprintf(stderr, ...); exit(1);\<close>\<close>

definition die :: "string \<Rightarrow> state \<Rightarrow> state" where
  "die msg s = exit_with 1 (emit (Fprintf_stderr msg) s)"

text \<open>The next statement runs only while the process has not ended.\<close>

definition then_do :: "state \<Rightarrow> (state \<Rightarrow> state) \<Rightarrow> state" where
  "then_do s f = (if halted s = None then f s else s)"

definition is_role :: "event \<Rightarrow> bool" where
  "is_role e = (case e of Run_server fd a \<Rightarrow> True | Run_client fd a \<Rightarrow> True | _ \<Rightarrow> False)"

definition is_key_derivation :: "event \<Rightarrow> bool" where
  "is_key_derivation e =
     (case e of Gen_encrypt_key p \<Rightarrow> True | Gen_decrypt_key p \<Rightarrow> True
      | Gen_string_md5sum p \<Rightarrow> True | _ \<Rightarrow> False)"

definition is_vt_route_add :: "event \<Rightarrow> bool" where
  "is_vt_route_add e = (case e of Vt_route_add n p g \<Rightarrow> True | _ \<Rightarrow> False)"

text \<open>
  What the process cannot decide itself: the name it was started under, what opening
  the tunnel device returns, what the \<open>TUNSETIFF\<close> request returns and which interface
  name the kernel leaves in \<open>ifr.ifr_name\<close>, and the text of \<open>strerror(errno)\<close>.
\<close>

record env =
  argv0 :: string
  open_net_tun :: int
  open_dev_tun :: int
  ioctl_tunsetiff :: "string \<Rightarrow> int \<times> string"
  strerror_errno :: string

text \<open>
  One result of \<open>getopt_long\<close>: the option letter with \<open>optarg\<close>. \<open>Opt_unknown\<close> is the
  result \<open>'?'\<close>, with the message \<open>getopt_long\<close> has written to stderr itself.
\<close>

datatype opt =
    Opt_l string
  | Opt_r string
  | Opt_a string
  | Opt_A string
  | Opt_m string
  | Opt_t string
  | Opt_n string
  | Opt_p string
  | Opt_e string
  | Opt_v string
  | Opt_N
  | Opt_d
  | Opt_h
  | Opt_unknown string

definition newline :: string where
  "newline = [CHR 0x0A]"

section \<open>print_help\<close>

definition print_help :: "env \<Rightarrow> state \<Rightarrow> state" where
  "print_help E s =
     foldl (\<lambda>s' l. emit (Printf (l @ newline)) s') s
       [''Mini virtual tunneller in non-standard protocol.'',
        ''Usage:'',
        ''  '' @ argv0 E @ '' [options]'',
        ''Options:'',
        ''  -l, --local <ip:port>               IP:port for server to listen'',
        ''  -r, --remote <ip:port>              IP:port of server to connect'',
        ''  -a, --ipv4-addr <tun_lip/tun_rip>   pointopoint IPv4 pair of the virtual interface'',
        ''                  <tun_lip/pfx_len>   IPv4 address/prefix length pair'',
        ''  -A, --ipv6-addr <tun_ip6/pfx_len>   IPv6 address/prefix length pair'',
        ''  -m, --mtu <mtu>                     set MTU size, default: ''
           @ dec_nat (unat (g_tun_mtu s)) @ ''.'',
        ''  -t, --keepalive <keepalive_timeo>   interval of keep-alive packets, default: ''
           @ dec_nat (unat (g_keepalive_timeo s)),
        ''  -n, --ifname <ifname>               virtual interface name'',
        ''  -p, --pidfile <pid_file>            PID file of the daemon'',
        ''  -e, --encryption-key <encrypt_key>  shared password for data encryption'',
        ''  -v, --route <network/prefix=gateway>'',
        ''                                      route a network to a client address, can be multiple'',
        ''  -N, --no-encryption                 turn off encryption for tunnelling data'',
        ''  -d, --daemon                        run as daemon process'',
        ''  -h, --help                          print this help'']"

section \<open>tun_alloc\<close>

text \<open>
  The result is the value returned and the new content of \<open>dev\<close>. \<open>None\<close> stands for
  the case the C standard does not define: \<open>strcpy\<close> from an \<open>ifr_name\<close> (16 bytes) that
  holds no terminator.
\<close>

definition tun_alloc :: "env \<Rightarrow> string \<Rightarrow> (int \<times> string) option" where
  "tun_alloc E dev =
     (let fd = (if open_net_tun E < 0 then open_dev_tun E else open_net_tun E) in
      if fd < 0 then Some (- 1, dev)
      else
        (let (err, ifr_name) = ioctl_tunsetiff E (if dev \<noteq> [] then take 16 dev else []) in
         if err < 0 then Some (err, dev)
         else if length ifr_name \<ge> 16 then None
         else Some (fd, ifr_name)))"

section \<open>parse_virtual_route\<close>

definition route_diagnostic :: "string \<Rightarrow> string" where
  "route_diagnostic arg =
     ''*** Not a valid route expression '' @ [CHR 0x27] @ arg @ [CHR 0x27] @ ''.'' @ newline"

text \<open>
  \<open>expr\<close> is what \<open>strncpy(expr, arg, 80)\<close> and \<open>expr[79] = 0\<close> leave in the buffer.
  The three parsers are called in the order of the source's \<open>||\<close>, so the prefix is
  only scanned when both addresses have parsed. \<open>prefix\<close> is an \<open>unsigned\<close>: a number
  that is negative or not below \<open>2 ^ 32\<close> does not fit it. The diagnostic quotes \<open>arg\<close>,
  not \<open>expr\<close>.
\<close>

definition parse_virtual_route :: "string \<Rightarrow> state \<Rightarrow> state" where
  "parse_virtual_route arg s =
     (let expr = take 79 arg in
      case strchr expr CHR ''/'' of
        None \<Rightarrow> die (route_diagnostic arg) s
      | Some i \<Rightarrow>
          (let net = take i expr; pfx0 = drop (Suc i) expr in
           case strchr pfx0 CHR ''='' of
             None \<Rightarrow> die (route_diagnostic arg) s
           | Some j \<Rightarrow>
               (let pfx = take j pfx0; gw = drop (Suc j) pfx0 in
                case inet_pton4 net of
                  None \<Rightarrow> die (route_diagnostic arg) s
                | Some network \<Rightarrow>
                    (case inet_pton4 gw of
                       None \<Rightarrow> die (route_diagnostic arg) s
                     | Some gateway \<Rightarrow>
                         (case sscanf_int pfx of
                            None \<Rightarrow> die (route_diagnostic arg) s
                          | Some prefix \<Rightarrow>
                              if prefix < 0 \<or> prefix \<ge> 2 ^ 32 then undefined_behaviour s
                              else emit (Vt_route_add network (word_of_int prefix) gateway) s)))))"

section \<open>main\<close>

subsection \<open>The option loop\<close>

text \<open>
  The loop runs over the results that \<open>getopt_long\<close> returns for the command line, in
  order; \<open>handle_opt\<close> is the \<open>switch\<close>.
\<close>

fun handle_opt :: "env \<Rightarrow> opt \<Rightarrow> state \<Rightarrow> state" where
  "handle_opt E (Opt_l optarg) s = s\<lparr>loc_addr_pair := Some optarg\<rparr>"
| "handle_opt E (Opt_r optarg) s = s\<lparr>peer_addr_pair := Some optarg\<rparr>"
| "handle_opt E (Opt_a optarg) s = s\<lparr>tun_ip_config := Some optarg\<rparr>"
| "handle_opt E (Opt_A optarg) s = s\<lparr>tun_ip6_config := Some optarg\<rparr>"
| "handle_opt E (Opt_m optarg) s = s\<lparr>g_tun_mtu := strtoul_unsigned optarg\<rparr>"
| "handle_opt E (Opt_t optarg) s = s\<lparr>g_keepalive_timeo := strtoul_unsigned optarg\<rparr>"
| "handle_opt E (Opt_n optarg) s = s\<lparr>g_devname := take 39 optarg\<rparr>"
| "handle_opt E (Opt_p optarg) s = s\<lparr>g_pid_file := Some optarg\<rparr>"
| "handle_opt E (Opt_e optarg) s = s\<lparr>g_crypto_passwd := Some optarg\<rparr>"
| "handle_opt E (Opt_v optarg) s = parse_virtual_route optarg s"
| "handle_opt E Opt_N s = s\<lparr>g_crypto_passwd := None\<rparr>"
| "handle_opt E Opt_d s = s\<lparr>g_in_background := True\<rparr>"
| "handle_opt E Opt_h s = exit_with 0 (print_help E s)"
| "handle_opt E (Opt_unknown msg) s = exit_with 1 (emit (Fprintf_stderr msg) s)"

fun getopt_loop :: "env \<Rightarrow> opt list \<Rightarrow> state \<Rightarrow> state" where
  "getopt_loop E [] s = s"
| "getopt_loop E (opt # opts) s = then_do (handle_opt E opt s) (getopt_loop E opts)"

subsection \<open>Opening the tunnel device\<close>

definition open_tun :: "env \<Rightarrow> state \<Rightarrow> state" where
  "open_tun E s =
     (let s1 = (if length (g_devname s) = 0 then s\<lparr>g_devname := ''mv%d''\<rparr> else s) in
      case tun_alloc E (g_devname s1) of
        None \<Rightarrow> undefined_behaviour s1
      | Some (fd, dev) \<Rightarrow>
          (let s2 = s1\<lparr>g_devname := dev, tunfd := fd\<rparr> in
           if fd < 0 then
             die (''*** open_tun() failed: '' @ strerror_errno E @ ''.'' @ newline) s2
           else s2))"

subsection \<open>Configuring the interface\<close>

text \<open>
  \<open>sprintf(cmd, ...)\<close> into \<open>char cmd[100]\<close> followed, at once or after one more call,
  by \<open>system(cmd)\<close>. A text of 100 characters or more does not fit the buffer.
\<close>

definition sprintf_cmd :: "string \<Rightarrow> (string \<Rightarrow> state \<Rightarrow> state) \<Rightarrow> state \<Rightarrow> state" where
  "sprintf_cmd text k s = (if length text < 100 then k text s else undefined_behaviour s)"

text \<open>
  \<open>~((1 << (32 - na)) - 1)\<close>, stored in a \<open>uint32_t\<close>. The source computes in \<open>int\<close>;
  the model computes in 32 bits with wrap-around, which differs from \<open>int\<close> arithmetic
  only at \<open>na = 1\<close>, where \<open>1 << 31\<close> and the subtraction leave the range of \<open>int\<close>
  and two's complement machines wrap. The four \<open>%u\<close> fields of the dotted quad are at
  most 255 each, so the text fits \<open>s_rip\<close>.
\<close>

definition netmask :: "int \<Rightarrow> 32 word" where
  "netmask na = NOT (push_bit (nat (32 - na)) 1 - 1)"

definition dotted_quad :: "32 word \<Rightarrow> string" where
  "dotted_quad m =
     dec_nat (unat (drop_bit 24 m)) @ ''.'' @
     dec_nat (unat (drop_bit 16 m AND 255)) @ ''.'' @
     dec_nat (unat (drop_bit 8 m AND 255)) @ ''.'' @
     dec_nat (unat (m AND 255))"

text \<open>
  \<open>s_lip\<close> has room for 19 characters and the terminator: \<open>strncpy\<close> of the text
  before the slash and the terminator written after it stay inside the buffer only
  when the slash is among the first 20 characters. \<open>s_rip\<close> is cut to 19 characters.
  \<open>na\<close> is an \<open>int\<close>.
\<close>

definition config_ipv4 :: "state \<Rightarrow> state" where
  "config_ipv4 s =
     (case tun_ip_config s of
        None \<Rightarrow> s
      | Some cfg \<Rightarrow>
          (case strchr cfg CHR ''/'' of
             None \<Rightarrow> die (''*** Invalid IPv4 address pair: '' @ cfg @ ''.'' @ newline) s
           | Some n \<Rightarrow>
               if n \<ge> 20 then undefined_behaviour s
               else
                 (let s_lip = take n cfg; s_rip = take 19 (drop (Suc n) cfg) in
                  case inet_pton4 s_lip of
                    None \<Rightarrow> die (''*** Invalid local IPv4 address: '' @ s_lip @ ''.'' @ newline) s
                  | Some vaddr \<Rightarrow>
                      (let s1 = s\<lparr>g_local_tun_in := vaddr\<rparr> in
                       case inet_pton4 s_rip of
                         Some vaddr' \<Rightarrow>
                           sprintf_cmd
                             (''ifconfig '' @ g_devname s1 @ '' '' @ s_lip @ '' pointopoint '' @ s_rip)
                             (\<lambda>cmd s'. emit (System cmd) (emit (Vt_route_add 0 0 vaddr') s')) s1
                       | None \<Rightarrow>
                           (case sscanf_int s_rip of
                              None \<Rightarrow>
                                die (''*** Not a legal netmask or prefix length: '' @ s_rip @ ''.''
                                       @ newline) s1
                            | Some na \<Rightarrow>
                                if na < - (2 ^ 31) \<or> na \<ge> 2 ^ 31 then undefined_behaviour s1
                                else if na > 0 \<and> na < 31 then
                                  sprintf_cmd
                                    (''ifconfig '' @ g_devname s1 @ '' '' @ s_lip @ '' netmask ''
                                       @ dotted_quad (netmask na))
                                    (\<lambda>cmd s'. emit (System cmd) s') s1
                                else
                                  die (''*** Not a legal netmask or prefix length: '' @ s_rip
                                         @ ''.'' @ newline) s1)))))"

text \<open>The same for IPv6, with room for 49 characters in \<open>s_lip\<close>.\<close>

definition config_ipv6 :: "state \<Rightarrow> state" where
  "config_ipv6 s =
     (case tun_ip6_config s of
        None \<Rightarrow> s
      | Some cfg \<Rightarrow>
          (case strchr cfg CHR ''/'' of
             None \<Rightarrow> die (''*** Invalid IPv6 address pair: '' @ cfg @ ''.'' @ newline) s
           | Some n \<Rightarrow>
               if n \<ge> 50 then undefined_behaviour s
               else
                 (let s_lip = take n cfg; s_pfx = take 19 (drop (Suc n) cfg) in
                  case inet_pton6 s_lip of
                    None \<Rightarrow> die (''*** Invalid local IPv6 address: '' @ s_lip @ ''.'' @ newline) s
                  | Some vaddr \<Rightarrow>
                      (let s1 = s\<lparr>g_local_tun_in6 := vaddr\<rparr> in
                       case sscanf_int s_pfx of
                         None \<Rightarrow> die (''*** Not a legal prefix length: '' @ s_pfx @ ''.'' @ newline) s1
                       | Some pfx_len \<Rightarrow>
                           if pfx_len < - (2 ^ 31) \<or> pfx_len \<ge> 2 ^ 31 then undefined_behaviour s1
                           else if \<not> (pfx_len > 0 \<and> pfx_len \<le> 128) then
                             die (''*** Not a legal prefix length: '' @ s_pfx @ ''.'' @ newline) s1
                           else
                             sprintf_cmd
                               (''ifconfig '' @ g_devname s1 @ '' add '' @ s_lip @ ''/''
                                  @ dec_int pfx_len)
                               (\<lambda>cmd s'. emit (System cmd) s') s1))))"

definition bring_up :: "state \<Rightarrow> state" where
  "bring_up s =
     sprintf_cmd
       (''ifconfig '' @ g_devname s @ '' mtu '' @ dec_nat (unat (g_tun_mtu s))
          @ ''; ifconfig '' @ g_devname s @ '' up'')
       (\<lambda>cmd s'. emit (System cmd) s') s"

subsection \<open>Keys and role\<close>

definition unencrypted_warning :: string where
  "unencrypted_warning = ''*** WARNING: Transmission will not be encrypted.'' @ newline"

definition crypto_setup :: "state \<Rightarrow> state" where
  "crypto_setup s =
     (case g_crypto_passwd s of
        Some passwd \<Rightarrow>
          emit (Gen_string_md5sum passwd)
            (emit (Gen_decrypt_key passwd) (emit (Gen_encrypt_key passwd) s))
      | None \<Rightarrow> emit (Fprintf_stderr unencrypted_warning) s)"

definition no_address_diagnostic :: string where
  "no_address_diagnostic = ''*** No valid local or peer address specified.'' @ newline"

text \<open>
  \<open>run_server\<close> and \<open>run_client\<close> are defined outside minivtun.c: the model records the
  call and goes on with what \<open>main\<close> does when the call returns, \<open>return 0\<close>.
\<close>

definition dispatch :: "state \<Rightarrow> state" where
  "dispatch s =
     (case loc_addr_pair s of
        Some a \<Rightarrow> (emit (Run_server (tunfd s) a) s)\<lparr>halted := Some (Return 0)\<rparr>
      | None \<Rightarrow>
          (case peer_addr_pair s of
             Some a \<Rightarrow> (emit (Run_client (tunfd s) a) s)\<lparr>halted := Some (Return 0)\<rparr>
           | None \<Rightarrow> die no_address_diagnostic s))"

subsection \<open>The statements of main in order\<close>

text \<open>
  \<open>main_options\<close> is the process when the option loop is over, \<open>main_tun\<close> when the
  tunnel device has been opened, and so on down to \<open>main\<close>, the whole run.
\<close>

definition main_options :: "env \<Rightarrow> opt list \<Rightarrow> state" where
  "main_options E opts = getopt_loop E opts initial_state"

definition main_tun :: "env \<Rightarrow> opt list \<Rightarrow> state" where
  "main_tun E opts = then_do (main_options E opts) (open_tun E)"

definition main_ipv4 :: "env \<Rightarrow> opt list \<Rightarrow> state" where
  "main_ipv4 E opts = then_do (main_tun E opts) config_ipv4"

definition main_ipv6 :: "env \<Rightarrow> opt list \<Rightarrow> state" where
  "main_ipv6 E opts = then_do (main_ipv4 E opts) config_ipv6"

definition main_up :: "env \<Rightarrow> opt list \<Rightarrow> state" where
  "main_up E opts = then_do (main_ipv6 E opts) bring_up"

definition main_crypto :: "env \<Rightarrow> opt list \<Rightarrow> state" where
  "main_crypto E opts = then_do (main_up E opts) crypto_setup"

definition main :: "env \<Rightarrow> opt list \<Rightarrow> state" where
  "main E opts = then_do (main_crypto E opts) dispatch"

section \<open>Auxiliary notions for the proofs\<close>

text \<open>
  \<open>pton4_room\<close> bounds the characters the IPv4 parser can still accept from a state:
  the digits left in the current octet, and a dot with three digits for each octet not
  yet begun.
\<close>

definition pton4_room :: "bool \<Rightarrow> nat \<Rightarrow> nat \<Rightarrow> nat" where
  "pton4_room saw k cur =
     (if saw then (if cur = 0 then 0 else if cur < 10 then 2 else if cur < 26 then 1 else 0)
                  + 4 * (4 - k)
      else if k < 4 then 3 + 4 * (3 - k) else 0)"

text \<open>The variables that only the option loop assigns.\<close>

definition settings ::
  "state \<Rightarrow> (32 word \<times> 32 word \<times> 32 word) \<times> (string option \<times> string option \<times> bool)
     \<times> (string option \<times> string option) \<times> (string option \<times> string option)" where
  "settings s =
     ((g_keepalive_timeo s, g_reconnect_timeo s, g_tun_mtu s),
      (g_pid_file s, g_crypto_passwd s, g_in_background s),
      (tun_ip_config s, tun_ip6_config s),
      (loc_addr_pair s, peer_addr_pair s))"

text \<open>A step is quiet for a kind of event when it adds no event of that kind.\<close>

definition quiet :: "(event \<Rightarrow> bool) \<Rightarrow> (state \<Rightarrow> state) \<Rightarrow> bool" where
  "quiet P f = (\<forall>s. filter P (trace (f s)) = filter P (trace s))"

section \<open>Inputs for the examples\<close>

text \<open>
  An environment for the examples: \<open>/dev/net/tun\<close> opens as descriptor 3 and the
  kernel names the interface \<open>mv0\<close>.
\<close>

definition example_env :: env where
  "example_env =
     \<lparr> argv0 = ''minivtun'',
       open_net_tun = 3,
       open_dev_tun = - 1,
       ioctl_tunsetiff = (\<lambda>req. (0, ''mv0'')),
       strerror_errno = ''No such file or directory'' \<rparr>"

text \<open>
  A route argument of 89 characters: network \<open>10.0.0.0\<close>, the prefix length 8 written
  with seventy leading zeros, gateway \<open>10.7.0.1\<close>.
\<close>

definition long_route_arg :: string where
  "long_route_arg = ''10.0.0.0/00000000000000000000000000000000000000000000000000000000000000000000008=10.7.0.1''"

text \<open>
  A route argument of 80 characters: the same with sixty zeros, and one more character
  after the gateway.
\<close>

definition truncated_route_arg :: string where
  "truncated_route_arg =
     ''10.0.0.0/0000000000000000000000000000000000000000000000000000000000008=10.7.0.1x''"

text \<open>The number 31 written with eighteen leading zeros: 20 characters.\<close>

definition zero_padded_31 :: string where
  "zero_padded_31 = ''00000000000000000031''"

section \<open>Facts about the C library model\<close>

lemmas libc_eval = inet_pton4_def octets_val_def is_digit_def digit_val_def sscanf_int_def
  scan_decimal_def decimal_val_def is_space_def strchr_def

lemmas prims = emit_def exit_with_def undefined_behaviour_def die_def sprintf_cmd_def

lemma takeWhile_upto: "c \<notin> set a \<Longrightarrow> takeWhile (\<lambda>x. x \<noteq> c) (a @ c # b) = a"
  by (induction a) auto

lemma strchr_split: "c \<notin> set a \<Longrightarrow> strchr (a @ c # b) c = Some (length a)"
  by (simp add: strchr_def takeWhile_upto)

text \<open>A string that parses as an IPv4 address consists of digits and dots.\<close>

lemma inet_pton4_loop_chars:
  "inet_pton4_loop s saw k cur done = Some r \<Longrightarrow> c \<in> set s \<Longrightarrow> is_digit c \<or> c = CHR ''.''"
  by (induction s saw k cur "done" rule: inet_pton4_loop.induct)
     (auto simp: Let_def split: if_splits)

lemma inet_pton4_chars: "inet_pton4 s = Some a \<Longrightarrow> c \<in> set s \<Longrightarrow> is_digit c \<or> c = CHR ''.''"
  by (auto simp: inet_pton4_def dest: inet_pton4_loop_chars)

lemma inet_pton4_no_slash: "inet_pton4 s = Some a \<Longrightarrow> CHR ''/'' \<notin> set s"
  by (auto dest: inet_pton4_chars simp: is_digit_def)

text \<open>It has at most 15 characters.\<close>

lemma digit_val_le: "is_digit c \<Longrightarrow> digit_val c \<le> 9"
  by (auto simp: is_digit_def digit_val_def)

lemma inet_pton4_loop_length:
  "inet_pton4_loop s saw k cur done = Some r \<Longrightarrow> k \<le> 4 \<Longrightarrow> (saw \<longrightarrow> 0 < k)
     \<Longrightarrow> length s \<le> pton4_room saw k cur"
proof (induction s saw k cur "done" rule: inet_pton4_loop.induct)
  case (1 saw k cur d)
  then show ?case by simp
next
  case (2 ch src saw k cur d)
  show ?case
  proof (cases "is_digit ch")
    case True
    then show ?thesis
      using 2 digit_val_le [of ch]
      by (auto simp: Let_def pton4_room_def split: if_splits)
  next
    case False
    then show ?thesis
      using 2 by (auto simp: Let_def pton4_room_def split: if_splits)
  qed
qed

lemma inet_pton4_length: "inet_pton4 s = Some a \<Longrightarrow> length s \<le> 15"
  using inet_pton4_loop_length [of s False 0 0 "[]"]
  by (auto simp: inet_pton4_def pton4_room_def)

lemma inet_pton4_take19: "inet_pton4 (take 19 s) = Some a \<Longrightarrow> take 19 s = s"
  by (drule inet_pton4_length) (cases "length s \<le> 19", auto)

section \<open>Facts about the steps of main\<close>

subsection \<open>then_do\<close>

lemma then_do_running: "halted s = None \<Longrightarrow> then_do s f = f s"
  by (simp add: then_do_def)

lemma then_do_halted: "halted s \<noteq> None \<Longrightarrow> then_do s f = s"
  by (auto simp: then_do_def)

lemma then_do_not_haltedD: "halted (then_do s f) = None \<Longrightarrow> halted s = None"
  by (cases "halted s") (simp_all add: then_do_def)

lemma then_do_frame: "(\<And>s. P (f s) = P s) \<Longrightarrow> P (then_do s f) = P s"
  by (simp add: then_do_def)

subsection \<open>What each step leaves alone\<close>

lemma settings_parse_virtual_route [simp]: "settings (parse_virtual_route a s) = settings s"
  by (simp add: settings_def parse_virtual_route_def prims Let_def split: option.splits)

lemma foldl_emit_frame:
  "(\<And>l s. P (emit (g l) s) = P s) \<Longrightarrow> P (foldl (\<lambda>s' l. emit (g l) s') s ls) = P s"
  by (induction ls arbitrary: s) simp_all

lemma settings_print_help [simp]: "settings (print_help E s) = settings s"
  unfolding print_help_def by (rule foldl_emit_frame) (simp add: settings_def emit_def)

lemma settings_open_tun [simp]: "settings (open_tun E s) = settings s"
  by (simp add: settings_def open_tun_def prims Let_def split: option.splits prod.splits)

lemma settings_config_ipv4 [simp]: "settings (config_ipv4 s) = settings s"
  by (simp add: settings_def config_ipv4_def prims Let_def split: option.splits)

lemma settings_config_ipv6 [simp]: "settings (config_ipv6 s) = settings s"
  by (simp add: settings_def config_ipv6_def prims Let_def split: option.splits)

lemma settings_bring_up [simp]: "settings (bring_up s) = settings s"
  by (simp add: settings_def bring_up_def prims)

lemma settings_crypto_setup [simp]: "settings (crypto_setup s) = settings s"
  by (simp add: settings_def crypto_setup_def prims split: option.splits)

lemma settings_dispatch [simp]: "settings (dispatch s) = settings s"
  by (simp add: settings_def dispatch_def prims split: option.splits)

subsection \<open>Events\<close>

lemma quiet_then_do: "quiet P f \<Longrightarrow> filter P (trace (then_do s f)) = filter P (trace s)"
  by (simp add: then_do_def quiet_def)

lemma quiet_parse_virtual_route:
  "\<not> P (Fprintf_stderr (route_diagnostic a)) \<Longrightarrow> (\<And>n p g. \<not> P (Vt_route_add n p g))
    \<Longrightarrow> quiet P (parse_virtual_route a)"
  by (simp add: quiet_def parse_virtual_route_def prims Let_def split: option.splits)

lemma quiet_print_help: "(\<And>t. \<not> P (Printf t)) \<Longrightarrow> quiet P (print_help E)"
  unfolding quiet_def print_help_def
  by (intro allI foldl_emit_frame [where P = "\<lambda>s. filter P (trace s)"]) (simp add: emit_def)

lemma quiet_handle_opt:
  "(\<And>t. \<not> P (Printf t)) \<Longrightarrow> (\<And>t. \<not> P (Fprintf_stderr t)) \<Longrightarrow> (\<And>n p g. \<not> P (Vt_route_add n p g))
    \<Longrightarrow> quiet P (handle_opt E opt)"
proof (cases opt)
  case (Opt_v a)
  assume "\<And>t. \<not> P (Fprintf_stderr t)" "\<And>n p g. \<not> P (Vt_route_add n p g)"
  then have "quiet P (parse_virtual_route a)" by (intro quiet_parse_virtual_route)
  with Opt_v show ?thesis by (simp add: quiet_def)
next
  case Opt_h
  assume "\<And>t. \<not> P (Printf t)"
  then have "quiet P (print_help E)" by (rule quiet_print_help)
  with Opt_h show ?thesis by (simp add: quiet_def exit_with_def)
qed (simp_all add: quiet_def prims)

lemma quiet_getopt_loop:
  "(\<And>opt. quiet P (handle_opt E opt)) \<Longrightarrow> quiet P (getopt_loop E opts)"
proof (induction opts)
  case Nil
  show ?case by (simp add: quiet_def)
next
  case (Cons opt opts)
  then have "quiet P (getopt_loop E opts)" by simp
  then show ?case using Cons.prems [of opt] by (simp add: quiet_def then_do_def)
qed

lemma quiet_open_tun: "(\<And>t. \<not> P (Fprintf_stderr t)) \<Longrightarrow> quiet P (open_tun E)"
  by (simp add: quiet_def open_tun_def prims Let_def split: option.splits prod.splits)

lemma quiet_config_ipv4:
  "(\<And>t. \<not> P (Fprintf_stderr t)) \<Longrightarrow> (\<And>t. \<not> P (System t)) \<Longrightarrow> (\<And>n p g. \<not> P (Vt_route_add n p g))
    \<Longrightarrow> quiet P config_ipv4"
  by (simp add: quiet_def config_ipv4_def prims Let_def split: option.splits)

lemma quiet_config_ipv6:
  "(\<And>t. \<not> P (Fprintf_stderr t)) \<Longrightarrow> (\<And>t. \<not> P (System t)) \<Longrightarrow> quiet P config_ipv6"
  by (simp add: quiet_def config_ipv6_def prims Let_def split: option.splits)

lemma quiet_bring_up: "(\<And>t. \<not> P (System t)) \<Longrightarrow> quiet P bring_up"
  by (simp add: quiet_def bring_up_def prims)

lemma quiet_crypto_setup:
  "(\<And>t. \<not> P (Fprintf_stderr t)) \<Longrightarrow> (\<And>t. \<not> P (Gen_encrypt_key t)) \<Longrightarrow> (\<And>t. \<not> P (Gen_decrypt_key t))
    \<Longrightarrow> (\<And>t. \<not> P (Gen_string_md5sum t)) \<Longrightarrow> quiet P crypto_setup"
  by (simp add: quiet_def crypto_setup_def prims split: option.splits)

lemma quiet_dispatch:
  "(\<And>t. \<not> P (Fprintf_stderr t)) \<Longrightarrow> (\<And>fd a. \<not> P (Run_server fd a)) \<Longrightarrow> (\<And>fd a. \<not> P (Run_client fd a))
    \<Longrightarrow> quiet P dispatch"
  by (simp add: quiet_def dispatch_def prims split: option.splits)

text \<open>No role controller runs before the last statement of main.\<close>

lemma no_role_main_options: "filter is_role (trace (main_options E opts)) = []"
proof -
  have "quiet is_role (getopt_loop E opts)"
    by (intro quiet_getopt_loop quiet_handle_opt) (simp_all add: is_role_def)
  then show ?thesis by (simp add: quiet_def main_options_def initial_state_def)
qed

lemma no_role_main_tun: "filter is_role (trace (main_tun E opts)) = []"
  unfolding main_tun_def
  by (simp add: quiet_then_do quiet_open_tun is_role_def no_role_main_options)

lemma no_role_main_ipv4: "filter is_role (trace (main_ipv4 E opts)) = []"
  unfolding main_ipv4_def
  by (simp add: quiet_then_do quiet_config_ipv4 is_role_def no_role_main_tun)

lemma no_role_main_ipv6: "filter is_role (trace (main_ipv6 E opts)) = []"
  unfolding main_ipv6_def
  by (simp add: quiet_then_do quiet_config_ipv6 is_role_def no_role_main_ipv4)

lemma no_role_main_up: "filter is_role (trace (main_up E opts)) = []"
  unfolding main_up_def
  by (simp add: quiet_then_do quiet_bring_up is_role_def no_role_main_ipv6)

lemma no_role_main_crypto: "filter is_role (trace (main_crypto E opts)) = []"
  unfolding main_crypto_def
  by (simp add: quiet_then_do quiet_crypto_setup is_role_def no_role_main_up)

text \<open>No key is derived before the keys are set up.\<close>

lemma no_keys_main_up: "filter is_key_derivation (trace (main_up E opts)) = []"
proof -
  have "quiet is_key_derivation (getopt_loop E opts)"
    by (intro quiet_getopt_loop quiet_handle_opt) (simp_all add: is_key_derivation_def)
  then have "filter is_key_derivation (trace (main_options E opts)) = []"
    by (simp add: quiet_def main_options_def initial_state_def)
  then show ?thesis
    unfolding main_up_def main_ipv6_def main_ipv4_def main_tun_def
    by (simp add: quiet_then_do quiet_open_tun quiet_config_ipv4 quiet_config_ipv6 quiet_bring_up
          is_key_derivation_def)
qed

subsection \<open>The option loop\<close>

lemma getopt_loop_append:
  "halted s = None \<Longrightarrow>
   getopt_loop E (xs @ ys) s = then_do (getopt_loop E xs s) (getopt_loop E ys)"
proof (induction xs arbitrary: s)
  case Nil
  then show ?case by (simp add: then_do_def)
next
  case (Cons x xs)
  show ?case
  proof (cases "halted (handle_opt E x s)")
    case None
    then show ?thesis by (simp add: Cons.IH then_do_running)
  next
    case (Some h)
    then show ?thesis by (simp add: then_do_def)
  qed
qed

text \<open>
  When the loop ends with the process still running, every option has been handled in
  turn: the state is the one left by the options after any chosen one.
\<close>

lemma getopt_loop_split:
  assumes "halted s = None" and "halted (getopt_loop E (pre @ opt # post) s) = None"
  shows "getopt_loop E (pre @ opt # post) s
           = getopt_loop E post (handle_opt E opt (getopt_loop E pre s))"
    and "halted (getopt_loop E pre s) = None"
    and "halted (handle_opt E opt (getopt_loop E pre s)) = None"
proof -
  have eq: "getopt_loop E (pre @ opt # post) s
              = then_do (getopt_loop E pre s) (getopt_loop E (opt # post))"
    using assms(1) by (rule getopt_loop_append)
  with assms(2) show pre: "halted (getopt_loop E pre s) = None"
    by (auto dest: then_do_not_haltedD)
  with eq have eq2: "getopt_loop E (pre @ opt # post) s
      = then_do (handle_opt E opt (getopt_loop E pre s)) (getopt_loop E post)"
    by (simp add: then_do_running)
  with assms(2) show h: "halted (handle_opt E opt (getopt_loop E pre s)) = None"
    by (auto dest: then_do_not_haltedD)
  with eq2 show "getopt_loop E (pre @ opt # post) s
           = getopt_loop E post (handle_opt E opt (getopt_loop E pre s))"
    by (simp add: then_do_running)
qed

text \<open>A variable keeps its value through options that do not assign it.\<close>

lemma getopt_loop_frame:
  "(\<And>opt s. opt \<in> set opts \<Longrightarrow> P (handle_opt E opt s) = P s) \<Longrightarrow> P (getopt_loop E opts s) = P s"
proof (induction opts arbitrary: s)
  case Nil
  show ?case by simp
next
  case (Cons opt opts)
  have "P (getopt_loop E opts (handle_opt E opt s)) = P (handle_opt E opt s)"
    by (rule Cons.IH) (simp add: Cons.prems)
  moreover have "P (handle_opt E opt s) = P s" by (simp add: Cons.prems)
  ultimately show ?case by (simp add: then_do_def)
qed

lemma settingsD:
  "settings s = settings s' \<Longrightarrow>
     g_keepalive_timeo s = g_keepalive_timeo s' \<and> g_reconnect_timeo s = g_reconnect_timeo s'
     \<and> g_tun_mtu s = g_tun_mtu s' \<and> g_crypto_passwd s = g_crypto_passwd s'
     \<and> tun_ip_config s = tun_ip_config s' \<and> tun_ip6_config s = tun_ip6_config s'
     \<and> loc_addr_pair s = loc_addr_pair s' \<and> peer_addr_pair s = peer_addr_pair s'"
  by (simp add: settings_def)

lemma fields_parse_virtual_route [simp]:
  "g_keepalive_timeo (parse_virtual_route a s) = g_keepalive_timeo s"
  "g_reconnect_timeo (parse_virtual_route a s) = g_reconnect_timeo s"
  "g_tun_mtu (parse_virtual_route a s) = g_tun_mtu s"
  "g_crypto_passwd (parse_virtual_route a s) = g_crypto_passwd s"
  "tun_ip_config (parse_virtual_route a s) = tun_ip_config s"
  "tun_ip6_config (parse_virtual_route a s) = tun_ip6_config s"
  "loc_addr_pair (parse_virtual_route a s) = loc_addr_pair s"
  "peer_addr_pair (parse_virtual_route a s) = peer_addr_pair s"
  using settingsD [OF settings_parse_virtual_route [of a s]] by simp_all

lemma fields_print_help [simp]:
  "g_keepalive_timeo (print_help E s) = g_keepalive_timeo s"
  "g_reconnect_timeo (print_help E s) = g_reconnect_timeo s"
  "g_tun_mtu (print_help E s) = g_tun_mtu s"
  "g_crypto_passwd (print_help E s) = g_crypto_passwd s"
  "tun_ip_config (print_help E s) = tun_ip_config s"
  "tun_ip6_config (print_help E s) = tun_ip6_config s"
  "loc_addr_pair (print_help E s) = loc_addr_pair s"
  "peer_addr_pair (print_help E s) = peer_addr_pair s"
  using settingsD [OF settings_print_help [of E s]] by simp_all

text \<open>After the option loop the settings no longer change.\<close>

lemma settings_main: "settings (main E opts) = settings (main_options E opts)"
  unfolding main_def main_crypto_def main_up_def main_ipv6_def main_ipv4_def main_tun_def
  by (simp add: then_do_frame [where P = settings])

lemma settings_main_crypto: "settings (main_crypto E opts) = settings (main_options E opts)"
  unfolding main_crypto_def main_up_def main_ipv6_def main_ipv4_def main_tun_def
  by (simp add: then_do_frame [where P = settings])

lemma settings_main_up: "settings (main_up E opts) = settings (main_options E opts)"
  unfolding main_up_def main_ipv6_def main_ipv4_def main_tun_def
  by (simp add: then_do_frame [where P = settings])

lemma settings_main_ipv4: "settings (main_ipv4 E opts) = settings (main_options E opts)"
  unfolding main_ipv4_def main_tun_def
  by (simp add: then_do_frame [where P = settings])

lemma settings_main_tun: "settings (main_tun E opts) = settings (main_options E opts)"
  unfolding main_tun_def
  by (simp add: then_do_frame [where P = settings])

lemma running_main_up:
  assumes "halted (main_up E opts) = None"
  shows "halted (main_ipv6 E opts) = None" "halted (main_ipv4 E opts) = None"
    "halted (main_tun E opts) = None" "halted (main_options E opts) = None"
proof -
  from assms show 6: "halted (main_ipv6 E opts) = None"
    unfolding main_up_def by (rule then_do_not_haltedD)
  then show 4: "halted (main_ipv4 E opts) = None"
    unfolding main_ipv6_def by (rule then_do_not_haltedD)
  then show t: "halted (main_tun E opts) = None"
    unfolding main_ipv4_def by (rule then_do_not_haltedD)
  then show "halted (main_options E opts) = None"
    unfolding main_tun_def by (rule then_do_not_haltedD)
qed

lemma running_main_crypto:
  "halted (main_crypto E opts) = None \<Longrightarrow> halted (main_up E opts) = None"
  unfolding main_crypto_def by (rule then_do_not_haltedD)

lemma halted_crypto_setup [simp]: "halted (crypto_setup s) = halted s"
  by (simp add: crypto_setup_def prims split: option.splits)

text \<open>The last option that assigns a variable decides its value.\<close>

lemma last_option_wins:
  assumes run: "halted (main_options E opts) = None"
    and split: "opts = pre @ opt # post"
    and set: "\<And>s. P (handle_opt E opt s) = v"
    and keep: "\<And>o' s. o' \<in> set post \<Longrightarrow> P (handle_opt E o' s) = P s"
  shows "P (main_options E opts) = v"
proof -
  have init: "halted initial_state = None" by (simp add: initial_state_def)
  from run have "halted (getopt_loop E (pre @ opt # post) initial_state) = None"
    by (simp add: main_options_def split)
  from getopt_loop_split(1) [OF init this]
  have "main_options E opts
          = getopt_loop E post (handle_opt E opt (getopt_loop E pre initial_state))"
    by (simp add: main_options_def split)
  moreover have "P (getopt_loop E post (handle_opt E opt (getopt_loop E pre initial_state)))
          = P (handle_opt E opt (getopt_loop E pre initial_state))"
    by (rule getopt_loop_frame) (rule keep)
  ultimately show ?thesis by (simp add: set)
qed

lemma never_assigned:
  assumes "\<And>o' s. o' \<in> set opts \<Longrightarrow> P (handle_opt E o' s) = P s"
  shows "P (main_options E opts) = P initial_state"
  unfolding main_options_def by (rule getopt_loop_frame) (rule assms)

lemma loc_addr_pair_other:
  "\<forall>b. opt \<noteq> Opt_l b \<Longrightarrow> loc_addr_pair (handle_opt E opt s) = loc_addr_pair s"
  by (cases opt) (auto simp: prims)

lemma peer_addr_pair_other:
  "\<forall>b. opt \<noteq> Opt_r b \<Longrightarrow> peer_addr_pair (handle_opt E opt s) = peer_addr_pair s"
  by (cases opt) (auto simp: prims)

lemma tun_ip_config_other:
  "\<forall>b. opt \<noteq> Opt_a b \<Longrightarrow> tun_ip_config (handle_opt E opt s) = tun_ip_config s"
  by (cases opt) (auto simp: prims)


lemma g_crypto_passwd_stays_off:
  "\<forall>b. opt \<noteq> Opt_e b \<Longrightarrow> g_crypto_passwd s = None \<Longrightarrow> g_crypto_passwd (handle_opt E opt s) = None"
  by (cases opt) (auto simp: prims)

lemma takeWhile_not_append:
  "filter P xs = [] \<Longrightarrow> takeWhile (\<lambda>e. \<not> P e) (xs @ ys) = xs @ takeWhile (\<lambda>e. \<not> P e) ys"
  by (induction xs) (auto split: if_splits)

text \<open>What the last two statements of main add to the events.\<close>

lemma main_crypto_eq:
  "halted (main_up E opts) = None \<Longrightarrow> main_crypto E opts = crypto_setup (main_up E opts)"
  by (simp add: main_crypto_def then_do_def)

lemma main_eq:
  "halted (main_up E opts) = None \<Longrightarrow> main E opts = dispatch (main_crypto E opts)"
  by (simp add: main_def then_do_def main_crypto_eq)

lemma trace_dispatch: "\<exists>e. trace (dispatch s) = trace s @ [e]"
  by (simp add: dispatch_def prims split: option.splits)

lemma before_role_main:
  assumes "halted (main_up E opts) = None"
  shows "set (trace (main_crypto E opts))
           \<subseteq> set (takeWhile (\<lambda>e. \<not> is_role e) (trace (main E opts)))"
proof -
  obtain e where "trace (main E opts) = trace (main_crypto E opts) @ [e]"
    using trace_dispatch [of "main_crypto E opts"] assms by (auto simp: main_eq)
  then show ?thesis
    by (simp add: takeWhile_not_append no_role_main_crypto)
qed

subsection \<open>Buffers that are large enough\<close>

lemma dec_nat_length: "n < 10 ^ k \<Longrightarrow> 0 < k \<Longrightarrow> length (dec_nat n) \<le> k"
proof (induction n arbitrary: k rule: dec_nat.induct)
  case (1 n)
  show ?case
  proof (cases "n < 10")
    case True
    with 1(3) show ?thesis by (subst dec_nat.simps) simp
  next
    case False
    obtain j where k: "k = Suc j" using 1(3) by (cases k) auto
    with 1(2) False have j: "0 < j" by (cases j) auto
    from 1(2) k have "n div 10 < 10 ^ j" by (simp add: less_mult_imp_div_less)
    with 1(1) [OF False this j] k False show ?thesis
      by (subst dec_nat.simps) simp
  qed
qed

lemma dec_nat_length3: "n < 256 \<Longrightarrow> length (dec_nat n) \<le> 3"
  by (rule dec_nat_length [where k = 3]) simp_all

lemma unat_and_255: "unat (w AND (255 :: 32 word)) < 256"
proof -
  have "w AND 255 \<le> 255" by (rule word_and_le1)
  then have "unat (w AND 255) \<le> unat (255 :: 32 word)" by (simp add: word_le_nat_alt)
  then show ?thesis by simp
qed

lemma unat_drop_bit_24: "unat (drop_bit 24 (w :: 32 word)) < 256"
proof -
  have "unat (drop_bit 24 w) = unat w div 2 ^ 24"
    by (simp add: drop_bit_eq_div unat_div)
  moreover have "unat w < 2 ^ 32" using unsigned_less [of w] by simp
  ultimately show ?thesis by (simp add: less_mult_imp_div_less)
qed

lemma dotted_quad_length: "length (dotted_quad m) \<le> 15"
  using dec_nat_length3 [OF unat_drop_bit_24 [of m]]
    dec_nat_length3 [OF unat_and_255 [of "drop_bit 16 m"]]
    dec_nat_length3 [OF unat_and_255 [of "drop_bit 8 m"]]
    dec_nat_length3 [OF unat_and_255 [of m]]
  by (simp add: dotted_quad_def)

subsection \<open>The last statements of main\<close>

lemma fields_main_crypto:
  "loc_addr_pair (main_crypto E opts) = loc_addr_pair (main_options E opts)"
  "peer_addr_pair (main_crypto E opts) = peer_addr_pair (main_options E opts)"
  "g_crypto_passwd (main_up E opts) = g_crypto_passwd (main_options E opts)"
  using settingsD [OF settings_main_crypto [of E opts]] settingsD [OF settings_main_up [of E opts]]
  by simp_all

lemma getopt_loop_stays_off:
  "g_crypto_passwd s = None \<Longrightarrow> \<forall>b. Opt_e b \<notin> set opts \<Longrightarrow> g_crypto_passwd (getopt_loop E opts s) = None"
proof (induction opts arbitrary: s)
  case Nil
  then show ?case by simp
next
  case (Cons opt opts)
  from Cons.prems have off: "g_crypto_passwd (handle_opt E opt s) = None"
    by (intro g_crypto_passwd_stays_off) auto
  with Cons.prems have "g_crypto_passwd (getopt_loop E opts (handle_opt E opt s)) = None"
    by (intro Cons.IH) auto
  with off show ?case by (simp add: then_do_def)
qed

lemma filter_dispatch:
  "filter is_key_derivation (trace (dispatch s)) = filter is_key_derivation (trace s)"
  using quiet_dispatch [of is_key_derivation] by (simp add: quiet_def is_key_derivation_def)

subsection \<open>The interface configuration\<close>

lemma open_tun_devname:
  "halted s = None \<Longrightarrow> halted (open_tun E s) = None \<Longrightarrow> length (g_devname (open_tun E s)) < 16"
  by (auto simp: open_tun_def tun_alloc_def prims Let_def split: option.splits prod.splits if_splits)

lemma main_tun_devname:
  assumes "halted (main_tun E opts) = None"
  shows "length (g_devname (main_tun E opts)) < 16"
proof -
  have run: "halted (main_options E opts) = None"
    using assms unfolding main_tun_def by (rule then_do_not_haltedD)
  then have "main_tun E opts = open_tun E (main_options E opts)"
    by (simp add: main_tun_def then_do_def)
  with assms run show ?thesis by (simp add: open_tun_devname)
qed

lemma main_ipv4_eq:
  "halted (main_tun E opts) = None \<Longrightarrow> main_ipv4 E opts = config_ipv4 (main_tun E opts)"
  by (simp add: main_ipv4_def then_do_def)

lemma main_ipv6_eq:
  "halted (main_ipv4 E opts) = None \<Longrightarrow> main_ipv6 E opts = config_ipv6 (main_ipv4 E opts)"
  by (simp add: main_ipv6_def then_do_def)

lemma main_after_ipv4_halt:
  "halted (main_ipv4 E opts) \<noteq> None \<Longrightarrow> main E opts = main_ipv4 E opts"
  by (simp add: main_def main_crypto_def main_up_def main_ipv6_def then_do_halted)


lemma main_after_tun_halt:
  "halted (main_tun E opts) \<noteq> None \<Longrightarrow> main E opts = main_tun E opts"
  by (simp add: main_def main_crypto_def main_up_def main_ipv6_def main_ipv4_def then_do_halted)

lemma main_after_up_halt:
  "halted (main_up E opts) \<noteq> None \<Longrightarrow> main E opts = main_up E opts"
  by (simp add: main_def main_crypto_def then_do_halted)

lemma main_after_crypto_halt:
  "halted (main_crypto E opts) \<noteq> None \<Longrightarrow> main E opts = main_crypto E opts"
  by (simp add: main_def then_do_halted)


lemma config_of_main:
  "tun_ip_config (main_tun E opts) = tun_ip_config (main_options E opts)"
  "tun_ip6_config (main_ipv4 E opts) = tun_ip6_config (main_options E opts)"
  using settingsD [OF settings_main_tun [of E opts]] settingsD [OF settings_main_ipv4 [of E opts]]
  by simp_all

lemma tun_ip_config_last:
  assumes "halted (main_options E opts) = None" and "opts = pre @ Opt_a cfg # post"
    and "\<forall>a. Opt_a a \<notin> set post"
  shows "tun_ip_config (main_options E opts) = Some cfg"
  using assms(1,2)
proof (rule last_option_wins)
  fix o' s assume "o' \<in> set post"
  with assms(3) show "tun_ip_config (handle_opt E o' s) = tun_ip_config s"
    by (intro tun_ip_config_other) auto
qed simp


text \<open>The branches of the IPv4 configuration.\<close>

lemma strchr_slash:
  "CHR ''/'' \<notin> set local \<Longrightarrow> strchr (local @ CHR ''/'' # X) CHR ''/'' = Some (length local)"
  by (rule strchr_split)



lemma config_ipv4_pointopoint:
  assumes "tun_ip_config s = Some (local @ CHR ''/'' # X)"
    and l: "inet_pton4 local = Some l" and r: "inet_pton4 (take 19 X) = Some r"
    and dev: "length (g_devname s) < 16"
  shows "config_ipv4 s
           = s\<lparr>g_local_tun_in := l,
               trace := trace s @ [Vt_route_add 0 0 r,
                 System (''ifconfig '' @ g_devname s @ '' '' @ local @ '' pointopoint '' @ take 19 X)]\<rparr>"
proof -
  have "length local \<le> 15" using l by (rule inet_pton4_length)
  moreover have "CHR ''/'' \<notin> set local" using l by (rule inet_pton4_no_slash)
  ultimately show ?thesis
    using assms by (simp add: config_ipv4_def strchr_slash prims Let_def)
qed

lemma config_ipv4_netmask:
  assumes "tun_ip_config s = Some (local @ CHR ''/'' # X)"
    and l: "inet_pton4 local = Some l" and r: "inet_pton4 (take 19 X) = None"
    and na: "sscanf_int (take 19 X) = Some na" "0 < na" "na < 31"
    and dev: "length (g_devname s) < 16"
  shows "config_ipv4 s
           = s\<lparr>g_local_tun_in := l,
               trace := trace s @
                 [System (''ifconfig '' @ g_devname s @ '' '' @ local @ '' netmask ''
                            @ dotted_quad (netmask na))]\<rparr>"
proof -
  have "length local \<le> 15" using l by (rule inet_pton4_length)
  moreover have "CHR ''/'' \<notin> set local" using l by (rule inet_pton4_no_slash)
  moreover note dotted_quad_length [of "netmask na"]
  ultimately show ?thesis
    using assms by (simp add: config_ipv4_def strchr_slash prims Let_def)
qed

lemma config_ipv4_illegal:
  assumes "tun_ip_config s = Some (local @ CHR ''/'' # X)"
    and l: "inet_pton4 local = Some l" and r: "inet_pton4 (take 19 X) = None"
    and na: "sscanf_int (take 19 X) = None
             \<or> (sscanf_int (take 19 X) = Some na \<and> - (2 ^ 31) \<le> na \<and> na < 2 ^ 31 \<and> (na < 1 \<or> 30 < na))"
  shows "config_ipv4 s
           = die (''*** Not a legal netmask or prefix length: '' @ take 19 X @ ''.'' @ newline)
               (s\<lparr>g_local_tun_in := l\<rparr>)"
proof -
  have "length local \<le> 15" using l by (rule inet_pton4_length)
  moreover have "CHR ''/'' \<notin> set local" using l by (rule inet_pton4_no_slash)
  ultimately show ?thesis
    using assms by (auto simp: config_ipv4_def strchr_slash Let_def)
qed

text \<open>
  A local part of 20 characters or more does not fit \<open>s_lip\<close>: the copy runs past the
  end of the buffer whatever the characters are.
\<close>

lemma config_ipv4_overrun:
  "tun_ip_config s = Some (local @ CHR ''/'' # X) \<Longrightarrow> CHR ''/'' \<notin> set local \<Longrightarrow> 20 \<le> length local
   \<Longrightarrow> config_ipv4 s = undefined_behaviour s"
  by (simp add: config_ipv4_def strchr_slash)




lemma config_ipv6_overrun:
  "tun_ip6_config s = Some (local @ CHR ''/'' # X) \<Longrightarrow> CHR ''/'' \<notin> set local \<Longrightarrow> 50 \<le> length local
   \<Longrightarrow> config_ipv6 s = undefined_behaviour s"
  by (simp add: config_ipv6_def strchr_slash)

lemma trace_die: "trace (die msg s) = trace s @ [Fprintf_stderr msg]"
  and halted_die: "halted (die msg s) = Some (Exit 1)"
  by (simp_all add: prims)

lemma grows_config_ipv6: "\<exists>es. trace (config_ipv6 s) = trace s @ es"
  by (simp add: config_ipv6_def prims Let_def split: option.splits)

lemma grows_bring_up: "\<exists>es. trace (bring_up s) = trace s @ es"
  by (simp add: bring_up_def prims)

lemma grows_crypto_setup: "\<exists>es. trace (crypto_setup s) = trace s @ es"
  by (simp add: crypto_setup_def prims split: option.splits)

lemma grows_then_do:
  "(\<And>s. \<exists>es. trace (f s) = trace s @ es) \<Longrightarrow> set (trace s) \<subseteq> set (trace (then_do s f))"
proof -
  assume "\<And>s. \<exists>es. trace (f s) = trace s @ es"
  then obtain es where "trace (f s) = trace s @ es" by blast
  then show ?thesis by (auto simp: then_do_def)
qed

lemma set_trace_main_crypto: "set (trace (main_ipv4 E opts)) \<subseteq> set (trace (main_crypto E opts))"
proof -
  have "set (trace (main_ipv4 E opts)) \<subseteq> set (trace (main_ipv6 E opts))"
    unfolding main_ipv6_def by (rule grows_then_do) (rule grows_config_ipv6)
  also have "\<dots> \<subseteq> set (trace (main_up E opts))"
    unfolding main_up_def by (rule grows_then_do) (rule grows_bring_up)
  also have "\<dots> \<subseteq> set (trace (main_crypto E opts))"
    unfolding main_crypto_def by (rule grows_then_do) (rule grows_crypto_setup)
  finally show ?thesis .
qed

lemma before_role_main_all:
  "set (trace (main_crypto E opts)) \<subseteq> set (takeWhile (\<lambda>e. \<not> is_role e) (trace (main E opts)))"
proof (cases "halted (main_crypto E opts)")
  case None
  then have "halted (main_up E opts) = None" by (rule running_main_crypto)
  then show ?thesis by (rule before_role_main)
next
  case (Some h)
  then have m: "main E opts = main_crypto E opts" by (simp add: main_def then_do_def)
  have all: "takeWhile (\<lambda>e. \<not> is_role e) (trace (main_crypto E opts)) = trace (main_crypto E opts)"
    using no_role_main_crypto [of E opts] by (simp add: takeWhile_eq_all_conv filter_empty_conv)
  show ?thesis unfolding m all by (rule subset_refl)
qed

lemma inet_pton4_take19_None: "inet_pton4 X = None \<Longrightarrow> inet_pton4 (take 19 X) = None"
proof (rule ccontr)
  assume X: "inet_pton4 X = None" and "inet_pton4 (take 19 X) \<noteq> None"
  then obtain a where a: "inet_pton4 (take 19 X) = Some a" by auto
  then have "take 19 X = X" by (rule inet_pton4_take19)
  with a X show False by simp
qed

lemma tun_ip_config_main_tun:
  assumes "halted (main_tun E opts) = None" and "opts = pre @ Opt_a cfg # post"
    and "\<forall>a. Opt_a a \<notin> set post"
  shows "tun_ip_config (main_tun E opts) = Some cfg"
proof -
  have "halted (main_options E opts) = None"
    using assms(1) unfolding main_tun_def by (rule then_do_not_haltedD)
  then show ?thesis
    using assms(2,3) by (simp add: config_of_main tun_ip_config_last)
qed





subsection \<open>Bringing the interface up\<close>

lemma dec_nat_unat_length: "length (dec_nat (unat (w :: 32 word))) \<le> 10"
proof (rule dec_nat_length)
  have "unat w < 2 ^ 32" using unsigned_less [of w] by simp
  then show "unat w < 10 ^ 10" by simp
qed simp

lemma g_devname_config_ipv4 [simp]: "g_devname (config_ipv4 s) = g_devname s"
  by (simp add: config_ipv4_def prims Let_def split: option.splits)

lemma g_devname_config_ipv6 [simp]: "g_devname (config_ipv6 s) = g_devname s"
  by (simp add: config_ipv6_def prims Let_def split: option.splits)

lemma main_ipv6_devname:
  assumes "halted (main_ipv6 E opts) = None"
  shows "length (g_devname (main_ipv6 E opts)) < 16"
proof -
  have 4: "halted (main_ipv4 E opts) = None"
    using assms unfolding main_ipv6_def by (rule then_do_not_haltedD)
  then have t: "halted (main_tun E opts) = None"
    unfolding main_ipv4_def by (rule then_do_not_haltedD)
  have "g_devname (main_ipv6 E opts) = g_devname (main_tun E opts)"
    using 4 t by (simp add: main_ipv6_eq main_ipv4_eq)
  with main_tun_devname [OF t] show ?thesis by simp
qed

lemma bring_up_command:
  assumes "length (g_devname s) < 16"
  shows "bring_up s
           = emit (System (''ifconfig '' @ g_devname s @ '' mtu '' @ dec_nat (unat (g_tun_mtu s))
                             @ ''; ifconfig '' @ g_devname s @ '' up'')) s"
  using assms dec_nat_unat_length [of "g_tun_mtu s"] by (simp add: bring_up_def sprintf_cmd_def)

lemma dec_nat_1416: "dec_nat 1416 = ''1416''"
  by (simp add: dec_nat.simps)

lemma main_up_eq:
  "halted (main_ipv6 E opts) = None \<Longrightarrow> main_up E opts = bring_up (main_ipv6 E opts)"
  by (simp add: main_up_def then_do_def)

lemma settings_main_ipv6: "settings (main_ipv6 E opts) = settings (main_options E opts)"
  unfolding main_ipv6_def main_ipv4_def main_tun_def
  by (simp add: then_do_frame [where P = settings])

section \<open>The claims\<close>




text \<open>
  Claim C2, as the code has it. The warning belongs to a disabled passphrase only. When
  the last of the options \<open>-e\<close> and \<open>-N\<close> is \<open>-N\<close> and startup gets as far as the key
  set-up, \<open>*** WARNING: Transmission will not be encrypted.\<close> is written to stderr
  before any role controller runs. An empty passphrase is a passphrase: the key set-up
  derives the two keys and the digest from it and prints nothing. When the process has
  exited before the key set-up, no role controller runs: the program does not operate.
  Nothing is said of a run that meets undefined behaviour before the key set-up.
\<close>

theorem warning_when_disabled:
  "(halted (main_up E opts) = None \<and> opts = pre @ Opt_N # post \<and> (\<forall>k. Opt_e k \<notin> set post) \<longrightarrow>
      Fprintf_stderr unencrypted_warning
        \<in> set (takeWhile (\<lambda>e. \<not> is_role e) (trace (main E opts))))
   \<and> (halted (main_up E opts) = None \<and> g_crypto_passwd (main_options E opts) = Some [] \<longrightarrow>
      trace (main_crypto E opts)
        = trace (main_up E opts) @ [Gen_encrypt_key [], Gen_decrypt_key [], Gen_string_md5sum []])
   \<and> (halted (main_up E opts) = Some (Exit n) \<longrightarrow> filter is_role (trace (main E opts)) = [])"
proof (intro conjI impI; (elim conjE)?)
  assume up: "halted (main_up E opts) = None"
    and split: "opts = pre @ Opt_N # post" and no: "\<forall>k. Opt_e k \<notin> set post"
  have run: "halted (main_options E opts) = None"
    using up by (rule running_main_up)
  have init: "halted initial_state = None" by (simp add: initial_state_def)
  from run have "halted (getopt_loop E (pre @ Opt_N # post) initial_state) = None"
    by (simp add: main_options_def split)
  from getopt_loop_split(1) [OF init this]
  have "main_options E opts
          = getopt_loop E post (handle_opt E Opt_N (getopt_loop E pre initial_state))"
    by (simp add: main_options_def split)
  moreover have "g_crypto_passwd
      (getopt_loop E post (handle_opt E Opt_N (getopt_loop E pre initial_state))) = None"
    using no by (intro getopt_loop_stays_off) auto
  ultimately have "g_crypto_passwd (main_options E opts) = None" by simp
  then have "g_crypto_passwd (main_up E opts) = None"
    by (simp add: fields_main_crypto)
  then have "Fprintf_stderr unencrypted_warning \<in> set (trace (main_crypto E opts))"
    using up by (simp add: main_crypto_eq crypto_setup_def emit_def)
  with before_role_main [OF up]
  show "Fprintf_stderr unencrypted_warning
              \<in> set (takeWhile (\<lambda>e. \<not> is_role e) (trace (main E opts)))"
    by auto
next
  assume up: "halted (main_up E opts) = None"
    and "g_crypto_passwd (main_options E opts) = Some []"
  then show "trace (main_crypto E opts)
              = trace (main_up E opts) @ [Gen_encrypt_key [], Gen_decrypt_key [], Gen_string_md5sum []]"
    by (simp add: main_crypto_eq crypto_setup_def emit_def fields_main_crypto)
next
  assume "halted (main_up E opts) = Some (Exit n)"
  then have "halted (main_up E opts) \<noteq> None" by simp
  then have "main E opts = main_up E opts" by (rule main_after_up_halt)
  then show "filter is_role (trace (main E opts)) = []" by (simp add: no_role_main_up)
qed

theorem warning_when_disabled_witness:
  "Fprintf_stderr unencrypted_warning
     \<in> set (takeWhile (\<lambda>e. \<not> is_role e) (trace (main example_env [Opt_e ''secret'', Opt_N, Opt_r ''192.0.2.1:1414''])))
   \<and> trace (main_crypto example_env [Opt_e [], Opt_r ''192.0.2.1:1414''])
     = trace (main_up example_env [Opt_e [], Opt_r ''192.0.2.1:1414''])
         @ [Gen_encrypt_key [], Gen_decrypt_key [], Gen_string_md5sum []]
   \<and> filter is_role (trace (main example_env [Opt_N, Opt_unknown ''unrecognized option''])) = []"
proof -
  have 1: "halted (main_up example_env [Opt_e ''secret'', Opt_N, Opt_r ''192.0.2.1:1414'']) = None"
    and 2: "halted (main_up example_env [Opt_e [], Opt_r ''192.0.2.1:1414'']) = None"
    by code_simp+
  have pw: "g_crypto_passwd (main_options example_env [Opt_e [], Opt_r ''192.0.2.1:1414'']) = Some []"
    by code_simp
  have split: "[Opt_e ''secret'', Opt_N, Opt_r ''192.0.2.1:1414'']
                 = [Opt_e ''secret''] @ Opt_N # [Opt_r ''192.0.2.1:1414'']"
    and no: "\<forall>k. Opt_e k \<notin> set [Opt_r ''192.0.2.1:1414'']"
    by simp_all
  from warning_when_disabled [of example_env "[Opt_e ''secret'', Opt_N, Opt_r ''192.0.2.1:1414'']"
      "[Opt_e ''secret'']" "[Opt_r ''192.0.2.1:1414'']"] 1 split no
  have a: "Fprintf_stderr unencrypted_warning
     \<in> set (takeWhile (\<lambda>e. \<not> is_role e)
              (trace (main example_env [Opt_e ''secret'', Opt_N, Opt_r ''192.0.2.1:1414''])))"
    by blast
  from warning_when_disabled [of example_env "[Opt_e [], Opt_r ''192.0.2.1:1414'']"] 2 pw
  have b: "trace (main_crypto example_env [Opt_e [], Opt_r ''192.0.2.1:1414''])
     = trace (main_up example_env [Opt_e [], Opt_r ''192.0.2.1:1414''])
         @ [Gen_encrypt_key [], Gen_decrypt_key [], Gen_string_md5sum []]"
    by blast
  have 3: "halted (main_up example_env [Opt_N, Opt_unknown ''unrecognized option'']) = Some (Exit 1)"
    by code_simp
  from warning_when_disabled [where E = example_env
      and opts = "[Opt_N, Opt_unknown ''unrecognized option'']" and n = 1] 3
  have c: "filter is_role (trace (main example_env [Opt_N, Opt_unknown ''unrecognized option''])) = []"
    by blast
  from a b c show ?thesis by simp
qed

text \<open>
  With no \<open>-e\<close> and no \<open>-N\<close> the passphrase is the empty string of its initialiser;
  the client role runs and nothing has been written to stderr.
\<close>

theorem warning_when_disabled_counterexample:
  "g_crypto_passwd (main example_env [Opt_r ''192.0.2.1:1414'']) = Some []
   \<and> trace (main example_env [Opt_r ''192.0.2.1:1414''])
     = [System ''ifconfig mv0 mtu 1416; ifconfig mv0 up'', Gen_encrypt_key [],
        Gen_decrypt_key [], Gen_string_md5sum [], Run_client 3 ''192.0.2.1:1414'']
   \<and> halted (main example_env [Opt_r ''192.0.2.1:1414'']) = Some (Return 0)"
  by code_simp

text \<open>
  Claim C3. At the end of every run the reconnect timeout is 60 (no option assigns it),
  the keepalive interval is 13 unless a \<open>-t\<close> option was given, and the MTU is 1416
  unless a \<open>-m\<close> option was given; without \<open>-m\<close>, a run that gets as far as bringing
  the interface up does so with \<open>ifconfig ... mtu 1416\<close>.
\<close>

theorem default_timeouts_and_mtu:
  "g_reconnect_timeo (main E opts) = 60
   \<and> ((\<forall>a. Opt_t a \<notin> set opts) \<longrightarrow> g_keepalive_timeo (main E opts) = 13)
   \<and> ((\<forall>a. Opt_m a \<notin> set opts) \<longrightarrow> g_tun_mtu (main E opts) = 1416)
   \<and> ((\<forall>a. Opt_m a \<notin> set opts) \<and> halted (main_ipv6 E opts) = None \<longrightarrow>
        trace (main_up E opts)
          = trace (main_ipv6 E opts)
              @ [System (''ifconfig '' @ g_devname (main_ipv6 E opts) @ '' mtu 1416; ifconfig ''
                           @ g_devname (main_ipv6 E opts) @ '' up'')])"
proof (intro conjI impI; (elim conjE)?)
  have "g_reconnect_timeo (getopt_loop E opts initial_state) = g_reconnect_timeo initial_state"
  proof (rule getopt_loop_frame)
    fix opt s show "g_reconnect_timeo (handle_opt E opt s) = g_reconnect_timeo s"
      by (cases opt) (simp_all add: exit_with_def emit_def)
  qed
  then show "g_reconnect_timeo (main E opts) = 60"
    using settingsD [OF settings_main [of E opts]]
    by (simp add: main_options_def initial_state_def)
next
  assume no: "\<forall>a. Opt_t a \<notin> set opts"
  have "g_keepalive_timeo (getopt_loop E opts initial_state) = g_keepalive_timeo initial_state"
  proof (rule getopt_loop_frame)
    fix opt s assume "opt \<in> set opts"
    with no show "g_keepalive_timeo (handle_opt E opt s) = g_keepalive_timeo s"
      by (cases opt) (auto simp: exit_with_def emit_def)
  qed
  then show "g_keepalive_timeo (main E opts) = 13"
    using settingsD [OF settings_main [of E opts]]
    by (simp add: main_options_def initial_state_def)
next
  assume no: "\<forall>a. Opt_m a \<notin> set opts"
  have "g_tun_mtu (getopt_loop E opts initial_state) = g_tun_mtu initial_state"
  proof (rule getopt_loop_frame)
    fix opt s assume "opt \<in> set opts"
    with no show "g_tun_mtu (handle_opt E opt s) = g_tun_mtu s"
      by (cases opt) (auto simp: exit_with_def emit_def)
  qed
  then show "g_tun_mtu (main E opts) = 1416"
    using settingsD [OF settings_main [of E opts]]
    by (simp add: main_options_def initial_state_def)
next
  assume no: "\<forall>a. Opt_m a \<notin> set opts" and run: "halted (main_ipv6 E opts) = None"
  have "g_tun_mtu (getopt_loop E opts initial_state) = g_tun_mtu initial_state"
  proof (rule getopt_loop_frame)
    fix opt s assume "opt \<in> set opts"
    with no show "g_tun_mtu (handle_opt E opt s) = g_tun_mtu s"
      by (cases opt) (auto simp: exit_with_def emit_def)
  qed
  then have mtu: "g_tun_mtu (main_ipv6 E opts) = 1416"
    using settingsD [OF settings_main_ipv6 [of E opts]]
    by (simp add: main_options_def initial_state_def)
  show "trace (main_up E opts)
          = trace (main_ipv6 E opts)
              @ [System (''ifconfig '' @ g_devname (main_ipv6 E opts) @ '' mtu 1416; ifconfig ''
                           @ g_devname (main_ipv6 E opts) @ '' up'')]"
    using bring_up_command [OF main_ipv6_devname [OF run]]
    by (simp add: main_up_eq [OF run] mtu emit_def dec_nat_1416)
qed

theorem default_timeouts_and_mtu_witness:
  "g_reconnect_timeo (main example_env [Opt_r ''192.0.2.1:1414'']) = 60
   \<and> g_keepalive_timeo (main example_env [Opt_r ''192.0.2.1:1414'']) = 13
   \<and> g_tun_mtu (main example_env [Opt_r ''192.0.2.1:1414'']) = 1416
   \<and> trace (main_up example_env [Opt_r ''192.0.2.1:1414''])
       = [System ''ifconfig mv0 mtu 1416; ifconfig mv0 up'']"
proof -
  have run: "halted (main_ipv6 example_env [Opt_r ''192.0.2.1:1414'']) = None"
    and tr: "trace (main_ipv6 example_env [Opt_r ''192.0.2.1:1414'']) = []"
    and dev: "g_devname (main_ipv6 example_env [Opt_r ''192.0.2.1:1414'']) = ''mv0''"
    by code_simp+
  from default_timeouts_and_mtu [of example_env "[Opt_r ''192.0.2.1:1414'']"] run tr dev
  show ?thesis by simp
qed

text \<open>
  Claim C4, as the code has it. The claim holds of the first 79 characters of the
  argument: when they have the form network/prefix=gateway (the prefix being the text
  up to the first \<open>=\<close>), both addresses parse and the prefix scans as a number that
  fits an \<open>unsigned\<close>, \<open>parse_virtual_route\<close> calls \<open>vt_route_add\<close> once with the
  three parsed values and changes nothing else.
\<close>

theorem parse_virtual_route_adds_route:
  assumes form: "take 79 arg = net @ CHR ''/'' # pfx @ CHR ''='' # gw"
    and eq: "CHR ''='' \<notin> set pfx"
    and net: "inet_pton4 net = Some network"
    and gw: "inet_pton4 gw = Some gateway"
    and pfx: "sscanf_int pfx = Some prefix" "0 \<le> prefix" "prefix < 2 ^ 32"
  shows "parse_virtual_route arg s
           = s\<lparr>trace := trace s @ [Vt_route_add network (word_of_int prefix) gateway]\<rparr>"
proof -
  have slash: "strchr (net @ CHR ''/'' # pfx @ CHR ''='' # gw) CHR ''/'' = Some (length net)"
    using net by (intro strchr_split inet_pton4_no_slash)
  have equals: "strchr (pfx @ CHR ''='' # gw) CHR ''='' = Some (length pfx)"
    using eq by (rule strchr_split)
  show ?thesis
    using pfx by (simp add: parse_virtual_route_def form slash equals net gw emit_def)
qed

theorem parse_virtual_route_adds_route_witness:
  "parse_virtual_route ''192.168.0.0/16=10.7.0.1'' initial_state
     = initial_state\<lparr>trace := trace initial_state @ [Vt_route_add 3232235520 16 168230913]\<rparr>"
proof -
  have "parse_virtual_route ''192.168.0.0/16=10.7.0.1'' initial_state
     = initial_state\<lparr>trace := trace initial_state
          @ [Vt_route_add 3232235520 (word_of_int 16) 168230913]\<rparr>"
    by (rule parse_virtual_route_adds_route [where net = "''192.168.0.0''" and pfx = "''16''"
          and gw = "''10.7.0.1''"]) (simp_all add: libc_eval)
  then show ?thesis by simp
qed

text \<open>
  An argument of the claimed form that is longer than the buffer is refused: the
  \<open>=\<close> of \<open>long_route_arg\<close> lies beyond the 79 characters that are kept.
\<close>

theorem parse_virtual_route_adds_route_counterexample:
  "long_route_arg = ''10.0.0.0'' @ CHR ''/'' # ''00000000000000000000000000000000000000000000000000000000000000000000008'' @ CHR ''='' # ''10.7.0.1''
   \<and> inet_pton4 ''10.0.0.0'' = Some 167772160
   \<and> inet_pton4 ''10.7.0.1'' = Some 168230913
   \<and> sscanf_int ''00000000000000000000000000000000000000000000000000000000000000000000008'' = Some 8
   \<and> halted (parse_virtual_route long_route_arg initial_state) = Some (Exit 1)
   \<and> trace (parse_virtual_route long_route_arg initial_state)
        = [Fprintf_stderr (route_diagnostic long_route_arg)]"
  by (simp add: libc_eval long_route_arg_def parse_virtual_route_def prims initial_state_def)

text \<open>
  Claim C5, as the code has it. When startup reaches the choice of the role: with a
  listen address (the last \<open>-l\<close>) the server runs on it; with a peer address (the
  last \<open>-r\<close>) and no listen address the client runs on it; with neither, the process
  writes \<open>*** No valid local or peer address specified.\<close> to stderr and exits with
  status 1, and no role controller has run. No role controller runs earlier, and none
  when the process has exited before the choice. Nothing is said of a run that meets
  undefined behaviour before the choice.
\<close>

theorem role_selection:
  "(halted (main_crypto E opts) = None \<and> opts = pre @ Opt_l a # post \<and> (\<forall>b. Opt_l b \<notin> set post) \<longrightarrow>
      trace (main E opts) = trace (main_crypto E opts) @ [Run_server (tunfd (main_crypto E opts)) a]
      \<and> halted (main E opts) = Some (Return 0))
   \<and> (halted (main_crypto E opts) = None \<and> (\<forall>b. Opt_l b \<notin> set opts)
        \<and> opts = pre' @ Opt_r a' # post' \<and> (\<forall>b. Opt_r b \<notin> set post') \<longrightarrow>
      trace (main E opts) = trace (main_crypto E opts) @ [Run_client (tunfd (main_crypto E opts)) a']
      \<and> halted (main E opts) = Some (Return 0))
   \<and> (halted (main_crypto E opts) = None \<and> (\<forall>b. Opt_l b \<notin> set opts) \<and> (\<forall>b. Opt_r b \<notin> set opts) \<longrightarrow>
      trace (main E opts) = trace (main_crypto E opts) @ [Fprintf_stderr no_address_diagnostic]
      \<and> halted (main E opts) = Some (Exit 1)
      \<and> filter is_role (trace (main E opts)) = [])
   \<and> filter is_role (trace (main_crypto E opts)) = []
   \<and> (halted (main_crypto E opts) = Some (Exit n) \<longrightarrow>
      main E opts = main_crypto E opts \<and> filter is_role (trace (main E opts)) = [])"
proof -
  have no_l: "loc_addr_pair (main_options E opts) = None" if "\<forall>b. Opt_l b \<notin> set opts"
  proof -
    have "loc_addr_pair (main_options E opts) = loc_addr_pair initial_state"
      using that by (intro never_assigned loc_addr_pair_other) auto
    then show ?thesis by (simp add: initial_state_def)
  qed
  have server: "trace (main E opts)
              = trace (main_crypto E opts) @ [Run_server (tunfd (main_crypto E opts)) a]
            \<and> halted (main E opts) = Some (Return 0)"
    if crypto: "halted (main_crypto E opts) = None"
      and "opts = pre @ Opt_l a # post" and "\<forall>b. Opt_l b \<notin> set post"
  proof -
    have up: "halted (main_up E opts) = None"
      using crypto by (rule running_main_crypto)
    then have run: "halted (main_options E opts) = None"
      by (rule running_main_up)
    have "loc_addr_pair (main_options E opts) = Some a"
      using run that(2)
    proof (rule last_option_wins)
      fix o' s assume "o' \<in> set post"
      with that(3) show "loc_addr_pair (handle_opt E o' s) = loc_addr_pair s"
        by (intro loc_addr_pair_other) auto
    qed simp
    then show ?thesis
      by (simp add: main_eq [OF up] dispatch_def emit_def fields_main_crypto)
  qed
  have client: "trace (main E opts)
              = trace (main_crypto E opts) @ [Run_client (tunfd (main_crypto E opts)) a']
            \<and> halted (main E opts) = Some (Return 0)"
    if crypto: "halted (main_crypto E opts) = None"
      and "\<forall>b. Opt_l b \<notin> set opts" and "opts = pre' @ Opt_r a' # post'"
      and "\<forall>b. Opt_r b \<notin> set post'"
  proof -
    have up: "halted (main_up E opts) = None"
      using crypto by (rule running_main_crypto)
    then have run: "halted (main_options E opts) = None"
      by (rule running_main_up)
    have "peer_addr_pair (main_options E opts) = Some a'"
      using run that(3)
    proof (rule last_option_wins)
      fix o' s assume "o' \<in> set post'"
      with that(4) show "peer_addr_pair (handle_opt E o' s) = peer_addr_pair s"
        by (intro peer_addr_pair_other) auto
    qed simp
    then show ?thesis
      using no_l [OF that(2)]
      by (simp add: main_eq [OF up] dispatch_def emit_def fields_main_crypto)
  qed
  have neither: "trace (main E opts) = trace (main_crypto E opts) @ [Fprintf_stderr no_address_diagnostic]
            \<and> halted (main E opts) = Some (Exit 1)
            \<and> filter is_role (trace (main E opts)) = []"
    if crypto: "halted (main_crypto E opts) = None"
      and "\<forall>b. Opt_l b \<notin> set opts" and "\<forall>b. Opt_r b \<notin> set opts"
  proof -
    have up: "halted (main_up E opts) = None"
      using crypto by (rule running_main_crypto)
    have "peer_addr_pair (main_options E opts) = peer_addr_pair initial_state"
      using that(3) by (intro never_assigned peer_addr_pair_other) auto
    then have "peer_addr_pair (main_options E opts) = None" by (simp add: initial_state_def)
    then show ?thesis
      using no_l [OF that(2)]
      by (simp add: main_eq [OF up] dispatch_def prims fields_main_crypto
            no_role_main_crypto is_role_def)
  qed
  have exited: "main E opts = main_crypto E opts \<and> filter is_role (trace (main E opts)) = []"
    if "halted (main_crypto E opts) = Some (Exit n)"
  proof -
    from that have "halted (main_crypto E opts) \<noteq> None" by simp
    then have "main E opts = main_crypto E opts" by (rule main_after_crypto_halt)
    then show ?thesis by (simp add: no_role_main_crypto)
  qed
  show ?thesis
    using server client neither no_role_main_crypto [of E opts] exited
    by blast
qed

theorem role_selection_witness:
  "trace (main example_env [Opt_r ''192.0.2.1:1414'', Opt_l ''0.0.0.0:1414''])
     = trace (main_crypto example_env [Opt_r ''192.0.2.1:1414'', Opt_l ''0.0.0.0:1414''])
         @ [Run_server 3 ''0.0.0.0:1414'']
   \<and> trace (main example_env [Opt_r ''192.0.2.1:1414''])
     = trace (main_crypto example_env [Opt_r ''192.0.2.1:1414'']) @ [Run_client 3 ''192.0.2.1:1414'']
   \<and> halted (main example_env [Opt_N]) = Some (Exit 1)
   \<and> trace (main example_env [Opt_N])
     = trace (main_crypto example_env [Opt_N]) @ [Fprintf_stderr no_address_diagnostic]
   \<and> halted (main example_env [Opt_l ''0.0.0.0:1414'', Opt_h]) = Some (Exit 0)
   \<and> filter is_role (trace (main example_env [Opt_l ''0.0.0.0:1414'', Opt_h])) = []"
proof -
  have 1: "halted (main_crypto example_env [Opt_r ''192.0.2.1:1414'', Opt_l ''0.0.0.0:1414'']) = None"
    and 2: "halted (main_crypto example_env [Opt_r ''192.0.2.1:1414'']) = None"
    and 3: "halted (main_crypto example_env [Opt_N]) = None"
    by code_simp+
  have fd: "tunfd (main_crypto example_env [Opt_r ''192.0.2.1:1414'', Opt_l ''0.0.0.0:1414'']) = 3"
    "tunfd (main_crypto example_env [Opt_r ''192.0.2.1:1414'']) = 3"
    by code_simp+
  have split: "[Opt_r ''192.0.2.1:1414'', Opt_l ''0.0.0.0:1414'']
                 = [Opt_r ''192.0.2.1:1414''] @ Opt_l ''0.0.0.0:1414'' # []"
    "[Opt_r ''192.0.2.1:1414''] = [] @ Opt_r ''192.0.2.1:1414'' # []"
    and none: "\<forall>b. Opt_l b \<notin> set []" "\<forall>b. Opt_r b \<notin> set []"
      "\<forall>b. Opt_l b \<notin> set [Opt_r ''192.0.2.1:1414'']"
      "\<forall>b. Opt_l b \<notin> set [Opt_N]" "\<forall>b. Opt_r b \<notin> set [Opt_N]"
    by simp_all
  from role_selection [of example_env "[Opt_r ''192.0.2.1:1414'', Opt_l ''0.0.0.0:1414'']"
      "[Opt_r ''192.0.2.1:1414'']" "''0.0.0.0:1414''" "[]"] 1 split(1) none(1)
  have a: "trace (main example_env [Opt_r ''192.0.2.1:1414'', Opt_l ''0.0.0.0:1414''])
     = trace (main_crypto example_env [Opt_r ''192.0.2.1:1414'', Opt_l ''0.0.0.0:1414''])
         @ [Run_server (tunfd (main_crypto example_env
              [Opt_r ''192.0.2.1:1414'', Opt_l ''0.0.0.0:1414''])) ''0.0.0.0:1414'']"
    by blast
  from role_selection [of example_env "[Opt_r ''192.0.2.1:1414'']" _ _ _
      "[]" "''192.0.2.1:1414''" "[]"] 2 split(2) none(2,3)
  have b: "trace (main example_env [Opt_r ''192.0.2.1:1414''])
     = trace (main_crypto example_env [Opt_r ''192.0.2.1:1414''])
         @ [Run_client (tunfd (main_crypto example_env [Opt_r ''192.0.2.1:1414''])) ''192.0.2.1:1414'']"
    by blast
  from role_selection [of example_env "[Opt_N]"] 3 none(4,5)
  have c: "halted (main example_env [Opt_N]) = Some (Exit 1)
     \<and> trace (main example_env [Opt_N])
       = trace (main_crypto example_env [Opt_N]) @ [Fprintf_stderr no_address_diagnostic]"
    by blast
  have 5: "halted (main_crypto example_env [Opt_l ''0.0.0.0:1414'', Opt_h]) = Some (Exit 0)"
    by code_simp
  from role_selection [where E = example_env and opts = "[Opt_l ''0.0.0.0:1414'', Opt_h]"
      and n = 0] 5
  have m: "main example_env [Opt_l ''0.0.0.0:1414'', Opt_h]
          = main_crypto example_env [Opt_l ''0.0.0.0:1414'', Opt_h]"
    and e: "filter is_role (trace (main example_env [Opt_l ''0.0.0.0:1414'', Opt_h])) = []"
    by blast+
  from m 5 have d: "halted (main example_env [Opt_l ''0.0.0.0:1414'', Opt_h]) = Some (Exit 0)"
    by simp
  from a b c d e fd show ?thesis by simp
qed

theorem role_selection_counterexample:
  "peer_addr_pair (main example_env [Opt_l ''0.0.0.0:1414'', Opt_r ''192.0.2.1:1414''])
     = Some ''192.0.2.1:1414''
   \<and> trace (main example_env [Opt_l ''0.0.0.0:1414'', Opt_r ''192.0.2.1:1414''])
     = [System ''ifconfig mv0 mtu 1416; ifconfig mv0 up'', Gen_encrypt_key [],
        Gen_decrypt_key [], Gen_string_md5sum [], Run_server 3 ''0.0.0.0:1414'']
   \<and> halted (main example_env [Opt_l ''0.0.0.0:1414'', Opt_r ''192.0.2.1:1414''])
     = Some (Return 0)"
  by code_simp

text \<open>
  Claim C6. Let the passphrase be set (not NULL) when the option loop is over. When
  startup reaches the key set-up, the whole run of \<open>main\<close> derives the encryption key,
  the decryption key and the digest exactly once each, from that passphrase, and all
  three before any role controller runs, so none after. When the process has exited
  earlier, nothing is derived and no role controller runs. Nothing is said of a run
  that meets undefined behaviour before the key set-up.
\<close>

theorem keys_derived_once:
  assumes passwd: "g_crypto_passwd (main_options E opts) = Some passwd"
  shows "(halted (main_up E opts) = None \<longrightarrow>
            filter is_key_derivation (trace (main E opts))
              = [Gen_encrypt_key passwd, Gen_decrypt_key passwd, Gen_string_md5sum passwd]
            \<and> filter is_key_derivation (takeWhile (\<lambda>e. \<not> is_role e) (trace (main E opts)))
              = [Gen_encrypt_key passwd, Gen_decrypt_key passwd, Gen_string_md5sum passwd])
       \<and> (halted (main_up E opts) = Some (Exit n) \<longrightarrow>
            filter is_key_derivation (trace (main E opts)) = []
            \<and> filter is_role (trace (main E opts)) = [])"
proof (intro conjI impI)
  assume "halted (main_up E opts) = Some (Exit n)"
  then have "halted (main_up E opts) \<noteq> None" by simp
  then have "main E opts = main_up E opts" by (rule main_after_up_halt)
  then show "filter is_key_derivation (trace (main E opts)) = []"
    and "filter is_role (trace (main E opts)) = []"
    by (simp_all add: no_keys_main_up no_role_main_up)
next
  assume up: "halted (main_up E opts) = None"
  have tr: "trace (main_crypto E opts)
      = trace (main_up E opts) @ [Gen_encrypt_key passwd, Gen_decrypt_key passwd, Gen_string_md5sum passwd]"
    using up passwd by (simp add: main_crypto_eq crypto_setup_def emit_def fields_main_crypto)
  then have keys: "filter is_key_derivation (trace (main_crypto E opts))
      = [Gen_encrypt_key passwd, Gen_decrypt_key passwd, Gen_string_md5sum passwd]"
    by (simp add: no_keys_main_up is_key_derivation_def)
  obtain e where e: "trace (main E opts) = trace (main_crypto E opts) @ [e]"
    using trace_dispatch [of "main_crypto E opts"] up by (auto simp: main_eq)
  have "filter is_key_derivation (trace (main E opts))
        = filter is_key_derivation (trace (main_crypto E opts))"
    using up by (simp add: main_eq filter_dispatch)
  with e have d: "filter is_key_derivation [e] = []" by simp
  have "takeWhile (\<lambda>e. \<not> is_role e) (trace (main E opts))
          = trace (main_crypto E opts) @ takeWhile (\<lambda>e. \<not> is_role e) [e]"
    by (simp add: e takeWhile_not_append no_role_main_crypto)
  moreover have "filter is_key_derivation (takeWhile (\<lambda>e. \<not> is_role e) [e]) = []"
    using d by (auto split: if_splits)
  ultimately show "filter is_key_derivation (trace (main E opts))
              = [Gen_encrypt_key passwd, Gen_decrypt_key passwd, Gen_string_md5sum passwd]"
    and "filter is_key_derivation (takeWhile (\<lambda>e. \<not> is_role e) (trace (main E opts)))
              = [Gen_encrypt_key passwd, Gen_decrypt_key passwd, Gen_string_md5sum passwd]"
    using keys d by (simp_all add: e)
qed

theorem keys_derived_once_witness:
  "filter is_key_derivation (trace (main example_env [Opt_e ''secret'', Opt_l ''0.0.0.0:1414'']))
     = [Gen_encrypt_key ''secret'', Gen_decrypt_key ''secret'', Gen_string_md5sum ''secret'']
   \<and> filter is_key_derivation
         (takeWhile (\<lambda>e. \<not> is_role e) (trace (main example_env [Opt_e ''secret'', Opt_l ''0.0.0.0:1414''])))
     = [Gen_encrypt_key ''secret'', Gen_decrypt_key ''secret'', Gen_string_md5sum ''secret'']
   \<and> filter is_key_derivation (trace (main example_env [Opt_e ''secret'', Opt_a ''10.0.0.1''])) = []
   \<and> filter is_role (trace (main example_env [Opt_e ''secret'', Opt_a ''10.0.0.1''])) = []"
proof -
  have 1: "halted (main_up example_env [Opt_e ''secret'', Opt_l ''0.0.0.0:1414'']) = None"
    by code_simp
  have 2: "g_crypto_passwd (main_options example_env [Opt_e ''secret'', Opt_l ''0.0.0.0:1414''])
             = Some ''secret''"
    by code_simp
  have 3: "halted (main_up example_env [Opt_e ''secret'', Opt_a ''10.0.0.1'']) = Some (Exit 1)"
    and 4: "g_crypto_passwd (main_options example_env [Opt_e ''secret'', Opt_a ''10.0.0.1''])
             = Some ''secret''"
    by code_simp+
  from keys_derived_once [OF 2, where n = 0] 1 keys_derived_once [OF 4, where n = 1] 3
  show ?thesis by blast
qed

text \<open>
  Claim C8, as the code has it. Let the last \<open>--ipv4-addr\<close> argument be local/X with
  local an IPv4 address and X none, and let the tunnel device be open. X is accepted as
  a prefix length when its first 19 characters scan (as \<open>%d\<close> does) to a number from 1
  to 30: the interface gets the netmask of that length. When they do not scan, or scan
  to an \<open>int\<close> below 1 or above 30 (such as 0, 31 and 32), the process writes
  \<open>*** Not a legal netmask or prefix length\<close> to stderr and exits with status 1.
\<close>

theorem ipv4_prefix_length:
  assumes opts: "opts = pre @ Opt_a (local @ CHR ''/'' # X) # post"
    and last: "\<forall>a. Opt_a a \<notin> set post"
    and l: "inet_pton4 local = Some l" and X: "inet_pton4 X = None"
    and run: "halted (main_tun E opts) = None"
  shows "(sscanf_int (take 19 X) = Some na \<and> 1 \<le> na \<and> na \<le> 30 \<longrightarrow>
            halted (main_ipv4 E opts) = None
            \<and> trace (main_ipv4 E opts)
                = trace (main_tun E opts)
                    @ [System (''ifconfig '' @ g_devname (main_tun E opts) @ '' '' @ local
                                 @ '' netmask '' @ dotted_quad (netmask na))])
       \<and> ((sscanf_int (take 19 X) = None
            \<or> (sscanf_int (take 19 X) = Some na \<and> - (2 ^ 31) \<le> na \<and> na < 2 ^ 31
                \<and> (na < 1 \<or> 30 < na))) \<longrightarrow>
            main E opts = main_ipv4 E opts
            \<and> halted (main E opts) = Some (Exit 1)
            \<and> trace (main E opts)
                = trace (main_tun E opts)
                    @ [Fprintf_stderr (''*** Not a legal netmask or prefix length: '' @ take 19 X
                                         @ ''.'' @ newline)])"
proof (intro conjI impI)
  have cfg: "tun_ip_config (main_tun E opts) = Some (local @ CHR ''/'' # X)"
    using run opts last by (rule tun_ip_config_main_tun)
  have X19: "inet_pton4 (take 19 X) = None"
    using X by (rule inet_pton4_take19_None)
  {
    assume "sscanf_int (take 19 X) = Some na \<and> 1 \<le> na \<and> na \<le> 30"
    then have "config_ipv4 (main_tun E opts)
           = (main_tun E opts)\<lparr>g_local_tun_in := l,
               trace := trace (main_tun E opts) @
                 [System (''ifconfig '' @ g_devname (main_tun E opts) @ '' '' @ local @ '' netmask ''
                            @ dotted_quad (netmask na))]\<rparr>"
      using cfg l X19 main_tun_devname [OF run] by (intro config_ipv4_netmask) auto
    then show "halted (main_ipv4 E opts) = None"
      and "trace (main_ipv4 E opts)
                = trace (main_tun E opts)
                    @ [System (''ifconfig '' @ g_devname (main_tun E opts) @ '' '' @ local
                                 @ '' netmask '' @ dotted_quad (netmask na))]"
      using run by (simp_all add: main_ipv4_eq)
  }
  {
    assume "sscanf_int (take 19 X) = None
            \<or> (sscanf_int (take 19 X) = Some na \<and> - (2 ^ 31) \<le> na \<and> na < 2 ^ 31
                \<and> (na < 1 \<or> 30 < na))"
    with cfg l X19 have "config_ipv4 (main_tun E opts)
           = die (''*** Not a legal netmask or prefix length: '' @ take 19 X @ ''.'' @ newline)
               ((main_tun E opts)\<lparr>g_local_tun_in := l\<rparr>)"
      by (rule config_ipv4_illegal)
    then have 4: "main_ipv4 E opts
           = die (''*** Not a legal netmask or prefix length: '' @ take 19 X @ ''.'' @ newline)
               ((main_tun E opts)\<lparr>g_local_tun_in := l\<rparr>)"
      using run by (simp add: main_ipv4_eq)
    then have "halted (main_ipv4 E opts) \<noteq> None" by (simp add: halted_die)
    then show m: "main E opts = main_ipv4 E opts" by (rule main_after_ipv4_halt)
    show "halted (main E opts) = Some (Exit 1)"
      and "trace (main E opts)
                = trace (main_tun E opts)
                    @ [Fprintf_stderr (''*** Not a legal netmask or prefix length: '' @ take 19 X
                                         @ ''.'' @ newline)]"
      by (simp_all add: m 4 halted_die trace_die)
  }
qed

theorem ipv4_prefix_length_witness:
  "trace (main_ipv4 example_env [Opt_a ''10.0.0.1/24'', Opt_r ''192.0.2.1:1414''])
     = [System ''ifconfig mv0 10.0.0.1 netmask 255.255.255.0'']
   \<and> halted (main example_env [Opt_a ''10.0.0.1/31'', Opt_r ''192.0.2.1:1414'']) = Some (Exit 1)
   \<and> trace (main example_env [Opt_a ''10.0.0.1/31'', Opt_r ''192.0.2.1:1414''])
     = [Fprintf_stderr (''*** Not a legal netmask or prefix length: 31.'' @ newline)]
   \<and> halted (main example_env [Opt_a ''10.0.0.1/32'', Opt_r ''192.0.2.1:1414'']) = Some (Exit 1)
   \<and> halted (main example_env [Opt_a ''10.0.0.1/0'', Opt_r ''192.0.2.1:1414'']) = Some (Exit 1)"
proof -
  have run: "halted (main_tun example_env [Opt_a ''10.0.0.1/24'', Opt_r ''192.0.2.1:1414'']) = None"
    "halted (main_tun example_env [Opt_a ''10.0.0.1/31'', Opt_r ''192.0.2.1:1414'']) = None"
    "halted (main_tun example_env [Opt_a ''10.0.0.1/32'', Opt_r ''192.0.2.1:1414'']) = None"
    "halted (main_tun example_env [Opt_a ''10.0.0.1/0'', Opt_r ''192.0.2.1:1414'']) = None"
    and tr: "trace (main_tun example_env [Opt_a ''10.0.0.1/24'', Opt_r ''192.0.2.1:1414'']) = []"
    "trace (main_tun example_env [Opt_a ''10.0.0.1/31'', Opt_r ''192.0.2.1:1414'']) = []"
    and dev: "g_devname (main_tun example_env [Opt_a ''10.0.0.1/24'', Opt_r ''192.0.2.1:1414''])
                = ''mv0''"
    and l: "inet_pton4 ''10.0.0.1'' = Some 167772161"
    and X: "inet_pton4 ''24'' = None" "inet_pton4 ''31'' = None" "inet_pton4 ''32'' = None"
      "inet_pton4 ''0'' = None"
    and na: "sscanf_int (take 19 ''24'') = Some 24" "sscanf_int (take 19 ''31'') = Some 31"
      "sscanf_int (take 19 ''32'') = Some 32" "sscanf_int (take 19 ''0'') = Some 0"
    and mask: "dotted_quad (netmask 24) = ''255.255.255.0''"
    by code_simp+
  have last: "\<forall>a. Opt_a a \<notin> set [Opt_r ''192.0.2.1:1414'']"
    by simp
  have opts: "[Opt_a ''10.0.0.1/24'', Opt_r ''192.0.2.1:1414'']
          = [] @ Opt_a (''10.0.0.1'' @ CHR ''/'' # ''24'') # [Opt_r ''192.0.2.1:1414'']"
    "[Opt_a ''10.0.0.1/31'', Opt_r ''192.0.2.1:1414'']
          = [] @ Opt_a (''10.0.0.1'' @ CHR ''/'' # ''31'') # [Opt_r ''192.0.2.1:1414'']"
    "[Opt_a ''10.0.0.1/32'', Opt_r ''192.0.2.1:1414'']
          = [] @ Opt_a (''10.0.0.1'' @ CHR ''/'' # ''32'') # [Opt_r ''192.0.2.1:1414'']"
    "[Opt_a ''10.0.0.1/0'', Opt_r ''192.0.2.1:1414'']
          = [] @ Opt_a (''10.0.0.1'' @ CHR ''/'' # ''0'') # [Opt_r ''192.0.2.1:1414'']"
    by simp_all
  have ok: "sscanf_int (take 19 ''24'') = Some 24 \<and> 1 \<le> (24::int) \<and> (24::int) \<le> 30"
    using na(1) by simp
  have bad: "sscanf_int (take 19 ''31'') = None
      \<or> (sscanf_int (take 19 ''31'') = Some 31 \<and> - (2 ^ 31) \<le> (31::int) \<and> (31::int) < 2 ^ 31
          \<and> ((31::int) < 1 \<or> 30 < (31::int)))"
    "sscanf_int (take 19 ''32'') = None
      \<or> (sscanf_int (take 19 ''32'') = Some 32 \<and> - (2 ^ 31) \<le> (32::int) \<and> (32::int) < 2 ^ 31
          \<and> ((32::int) < 1 \<or> 30 < (32::int)))"
    "sscanf_int (take 19 ''0'') = None
      \<or> (sscanf_int (take 19 ''0'') = Some 0 \<and> - (2 ^ 31) \<le> (0::int) \<and> (0::int) < 2 ^ 31
          \<and> ((0::int) < 1 \<or> 30 < (0::int)))"
    using na(2-4) by simp_all
  from ipv4_prefix_length [OF opts(1) last l X(1) run(1), of 24] ok
  have a: "trace (main_ipv4 example_env [Opt_a ''10.0.0.1/24'', Opt_r ''192.0.2.1:1414''])
     = trace (main_tun example_env [Opt_a ''10.0.0.1/24'', Opt_r ''192.0.2.1:1414''])
         @ [System (''ifconfig ''
              @ g_devname (main_tun example_env [Opt_a ''10.0.0.1/24'', Opt_r ''192.0.2.1:1414''])
              @ '' '' @ ''10.0.0.1'' @ '' netmask '' @ dotted_quad (netmask 24))]"
    by blast
  from ipv4_prefix_length [OF opts(2) last l X(2) run(2), of 31] bad(1)
  have b: "halted (main example_env [Opt_a ''10.0.0.1/31'', Opt_r ''192.0.2.1:1414'']) = Some (Exit 1)"
    and c: "trace (main example_env [Opt_a ''10.0.0.1/31'', Opt_r ''192.0.2.1:1414''])
     = trace (main_tun example_env [Opt_a ''10.0.0.1/31'', Opt_r ''192.0.2.1:1414''])
         @ [Fprintf_stderr (''*** Not a legal netmask or prefix length: '' @ take 19 ''31''
                              @ ''.'' @ newline)]"
    by blast+
  from ipv4_prefix_length [OF opts(3) last l X(3) run(3), of 32] bad(2)
  have d: "halted (main example_env [Opt_a ''10.0.0.1/32'', Opt_r ''192.0.2.1:1414'']) = Some (Exit 1)"
    by blast
  from ipv4_prefix_length [OF opts(4) last l X(4) run(4), of 0] bad(3)
  have e: "halted (main example_env [Opt_a ''10.0.0.1/0'', Opt_r ''192.0.2.1:1414'']) = Some (Exit 1)"
    by blast
  from a b c d e show ?thesis by (simp add: tr dev mask)
qed

text \<open>
  X = 31 written with eighteen leading zeros is not rejected: the 19 characters that
  are kept read 3, and the interface is configured with the netmask 224.0.0.0.
\<close>

theorem ipv4_prefix_length_counterexample:
  "inet_pton4 zero_padded_31 = None
   \<and> sscanf_int zero_padded_31 = Some 31
   \<and> trace (main example_env [Opt_a (''10.0.0.1/'' @ zero_padded_31), Opt_r ''192.0.2.1:1414''])
     = [System ''ifconfig mv0 10.0.0.1 netmask 224.0.0.0'',
        System ''ifconfig mv0 mtu 1416; ifconfig mv0 up'',
        Gen_encrypt_key [], Gen_decrypt_key [], Gen_string_md5sum [],
        Run_client 3 ''192.0.2.1:1414'']
   \<and> halted (main example_env [Opt_a (''10.0.0.1/'' @ zero_padded_31), Opt_r ''192.0.2.1:1414''])
     = Some (Return 0)"
  by code_simp

text \<open>
  Claim C9. Let the last \<open>--ipv4-addr\<close> argument be local/remote, both parsing as IPv4
  addresses. When the tunnel device has been opened, the IPv4 step calls
  \<open>vt_route_add\<close> with network 0.0.0.0, prefix length 0 and the remote address as
  gateway, and then configures the point-to-point interface; in the whole run that
  call comes before any role controller. When the process has exited before that step,
  no role controller runs at all. Nothing is said of a run that meets undefined
  behaviour before that step.
\<close>

theorem pointopoint_default_route:
  assumes opts: "opts = pre @ Opt_a (local @ CHR ''/'' # remote) # post"
    and last: "\<forall>a. Opt_a a \<notin> set post"
    and l: "inet_pton4 local = Some l" and r: "inet_pton4 remote = Some r"
  shows "(halted (main_tun E opts) = None \<longrightarrow>
            trace (main_ipv4 E opts)
              = trace (main_tun E opts)
                  @ [Vt_route_add 0 0 r,
                     System (''ifconfig '' @ g_devname (main_tun E opts) @ '' '' @ local
                               @ '' pointopoint '' @ remote)]
            \<and> Vt_route_add 0 0 r \<in> set (takeWhile (\<lambda>e. \<not> is_role e) (trace (main E opts))))
       \<and> (halted (main_tun E opts) = Some (Exit n) \<longrightarrow> filter is_role (trace (main E opts)) = [])"
proof (intro conjI impI)
  assume "halted (main_tun E opts) = Some (Exit n)"
  then have "halted (main_tun E opts) \<noteq> None" by simp
  then have "main E opts = main_tun E opts" by (rule main_after_tun_halt)
  then show "filter is_role (trace (main E opts)) = []" by (simp add: no_role_main_tun)
next
  assume run: "halted (main_tun E opts) = None"
  have cfg: "tun_ip_config (main_tun E opts) = Some (local @ CHR ''/'' # remote)"
    using run opts last by (rule tun_ip_config_main_tun)
  have "length remote \<le> 15" using r by (rule inet_pton4_length)
  then have short: "take 19 remote = remote" by simp
  have "config_ipv4 (main_tun E opts)
          = (main_tun E opts)\<lparr>g_local_tun_in := l,
               trace := trace (main_tun E opts) @ [Vt_route_add 0 0 r,
                 System (''ifconfig '' @ g_devname (main_tun E opts) @ '' '' @ local
                           @ '' pointopoint '' @ take 19 remote)]\<rparr>"
    using cfg l _ main_tun_devname [OF run]
    by (rule config_ipv4_pointopoint) (simp add: short r)
  then show tr: "trace (main_ipv4 E opts)
           = trace (main_tun E opts)
               @ [Vt_route_add 0 0 r,
                  System (''ifconfig '' @ g_devname (main_tun E opts) @ '' '' @ local
                            @ '' pointopoint '' @ remote)]"
    using run by (simp add: main_ipv4_eq short)
  then have "Vt_route_add 0 0 r \<in> set (trace (main_ipv4 E opts))" by simp
  with set_trace_main_crypto [of E opts] before_role_main_all [of E opts]
  show "Vt_route_add 0 0 r \<in> set (takeWhile (\<lambda>e. \<not> is_role e) (trace (main E opts)))"
    by blast
qed

theorem pointopoint_default_route_witness:
  "trace (main_ipv4 example_env [Opt_a ''10.0.0.1/10.0.0.2'', Opt_r ''192.0.2.1:1414''])
     = [Vt_route_add 0 0 167772162, System ''ifconfig mv0 10.0.0.1 pointopoint 10.0.0.2'']
   \<and> Vt_route_add 0 0 167772162
       \<in> set (takeWhile (\<lambda>e. \<not> is_role e)
                (trace (main example_env [Opt_a ''10.0.0.1/10.0.0.2'', Opt_r ''192.0.2.1:1414''])))
   \<and> filter is_role (trace (main example_env [Opt_a ''10.0.0.1/10.0.0.2'', Opt_v ''10.0.0.0/8''])) = []"
proof -
  have run: "halted (main_tun example_env [Opt_a ''10.0.0.1/10.0.0.2'', Opt_r ''192.0.2.1:1414'']) = None"
    and tr: "trace (main_tun example_env [Opt_a ''10.0.0.1/10.0.0.2'', Opt_r ''192.0.2.1:1414'']) = []"
    and dev: "g_devname (main_tun example_env [Opt_a ''10.0.0.1/10.0.0.2'', Opt_r ''192.0.2.1:1414''])
                = ''mv0''"
    and l: "inet_pton4 ''10.0.0.1'' = Some 167772161"
    and r: "inet_pton4 ''10.0.0.2'' = Some 167772162"
    by code_simp+
  have "[Opt_a ''10.0.0.1/10.0.0.2'', Opt_r ''192.0.2.1:1414'']
          = [] @ Opt_a (''10.0.0.1'' @ CHR ''/'' # ''10.0.0.2'') # [Opt_r ''192.0.2.1:1414'']"
    and "\<forall>a. Opt_a a \<notin> set [Opt_r ''192.0.2.1:1414'']"
    by simp_all
  from pointopoint_default_route [OF this l r, of example_env] run tr dev
  have a: "trace (main_ipv4 example_env [Opt_a ''10.0.0.1/10.0.0.2'', Opt_r ''192.0.2.1:1414''])
     = [Vt_route_add 0 0 167772162, System ''ifconfig mv0 10.0.0.1 pointopoint 10.0.0.2'']
   \<and> Vt_route_add 0 0 167772162
       \<in> set (takeWhile (\<lambda>e. \<not> is_role e)
                (trace (main example_env [Opt_a ''10.0.0.1/10.0.0.2'', Opt_r ''192.0.2.1:1414''])))"
    by simp
  have stop: "halted (main_tun example_env [Opt_a ''10.0.0.1/10.0.0.2'', Opt_v ''10.0.0.0/8''])
                = Some (Exit 1)"
    by code_simp
  have "[Opt_a ''10.0.0.1/10.0.0.2'', Opt_v ''10.0.0.0/8'']
          = [] @ Opt_a (''10.0.0.1'' @ CHR ''/'' # ''10.0.0.2'') # [Opt_v ''10.0.0.0/8'']"
    and "\<forall>a. Opt_a a \<notin> set [Opt_v ''10.0.0.0/8'']"
    by simp_all
  from pointopoint_default_route [OF this l r, where E = example_env and n = 1] stop
  have b: "filter is_role
             (trace (main example_env [Opt_a ''10.0.0.1/10.0.0.2'', Opt_v ''10.0.0.0/8''])) = []"
    by blast
  from a b show ?thesis by simp
qed

text \<open>
  Claim C10. Two arguments with the same first 79 characters are both accepted or both
  refused by \<open>parse_virtual_route\<close>, with the same calls of \<open>vt_route_add\<close>; unless
  they are refused (where the diagnostic quotes the whole argument) the resulting states
  are equal.
\<close>

theorem parse_virtual_route_first_79:
  assumes "take 79 a = take 79 b"
  shows "halted (parse_virtual_route a s) = halted (parse_virtual_route b s)
       \<and> filter is_vt_route_add (trace (parse_virtual_route a s))
           = filter is_vt_route_add (trace (parse_virtual_route b s))
       \<and> (halted (parse_virtual_route a s) \<noteq> Some (Exit 1)
            \<longrightarrow> parse_virtual_route a s = parse_virtual_route b s)"
  using assms
  by (simp add: parse_virtual_route_def prims is_vt_route_add_def Let_def split: option.splits)

theorem parse_virtual_route_first_79_witness:
  "take 79 truncated_route_arg = take 79 (take 79 truncated_route_arg @ ''.example'')
   \<and> parse_virtual_route truncated_route_arg initial_state
       = parse_virtual_route (take 79 truncated_route_arg @ ''.example'') initial_state
   \<and> filter is_vt_route_add (trace (parse_virtual_route truncated_route_arg initial_state))
       = [Vt_route_add 167772160 8 168230913]"
proof -
  have same: "take 79 truncated_route_arg = take 79 (take 79 truncated_route_arg @ ''.example'')"
    by (simp add: truncated_route_arg_def)
  have accepted: "halted (parse_virtual_route truncated_route_arg initial_state) \<noteq> Some (Exit 1)"
    by code_simp
  have route: "filter is_vt_route_add (trace (parse_virtual_route truncated_route_arg initial_state))
       = [Vt_route_add 167772160 8 168230913]"
    by code_simp
  from parse_virtual_route_first_79 [OF same, of initial_state] accepted route same
  show ?thesis by simp
qed

end
